theory Spec2Isabelle
  imports Complex_Main
begin

section \<open>Python values, failures and containers\<close>

text \<open>
  The notebooks are Python. Every exception a notebook statement can raise is a value of
  \<open>py_error\<close>, and a statement that can raise returns \<open>py_error + 'a\<close> with \<open>Inl\<close> for
  the exception. Python floats are modelled as rationals: the notebooks store and copy
  them and never compute with them. A \<open>dict\<close> is an association list in insertion order
  with one pair per key.
\<close>

datatype py_error = IndexError | KeyError | ValueError | AttributeError

type_synonym condition = string

type_synonym ('k, 'v) dict = "('k \<times> 'v) list"

definition dict_getitem :: "('k, 'v) dict \<Rightarrow> 'k \<Rightarrow> py_error + 'v" where
  "dict_getitem d k = (case map_of d k of None \<Rightarrow> Inl KeyError | Some v \<Rightarrow> Inr v)"

fun dict_setitem :: "('k, 'v) dict \<Rightarrow> 'k \<Rightarrow> 'v \<Rightarrow> ('k, 'v) dict" where
  "dict_setitem [] k v = [(k, v)]"
| "dict_setitem ((k', v') # d) k v =
     (if k' = k then (k, v) # d else (k', v') # dict_setitem d k v)"

text \<open>
  An index into an axis of length \<open>n\<close>, for a Python list and for a numpy array alike:
  \<open>0 .. n - 1\<close> count from the front, \<open>-n .. -1\<close> from the back, anything else raises
  IndexError.
\<close>

definition py_index :: "nat \<Rightarrow> int \<Rightarrow> py_error + nat" where
  "py_index n i =
     (if 0 \<le> i \<and> i < int n then Inr (nat i)
      else if - int n \<le> i \<and> i < 0 then Inr (nat (i + int n))
      else Inl IndexError)"

definition py_getitem :: "'a list \<Rightarrow> int \<Rightarrow> py_error + 'a" where
  "py_getitem xs i = (case py_index (length xs) i of Inl e \<Rightarrow> Inl e | Inr k \<Rightarrow> Inr (xs ! k))"

definition py_setitem :: "'a list \<Rightarrow> int \<Rightarrow> 'a \<Rightarrow> py_error + 'a list" where
  "py_setitem xs i v =
     (case py_index (length xs) i of Inl e \<Rightarrow> Inl e | Inr k \<Rightarrow> Inr (xs[k := v]))"

text \<open>\<open>range(n)\<close>, as the list of Python ints it iterates over.\<close>

definition py_range :: "nat \<Rightarrow> int list" where
  "py_range n = map int [0..<n]"

text \<open>A \<open>for\<close> loop over a list whose body may raise: the first exception ends the loop.\<close>

fun for_each :: "('a \<Rightarrow> 's \<Rightarrow> py_error + 's) \<Rightarrow> 'a list \<Rightarrow> 's \<Rightarrow> py_error + 's" where
  "for_each body [] s = Inr s"
| "for_each body (x # xs) s =
     (case body x s of Inl e \<Rightarrow> Inl e | Inr s' \<Rightarrow> for_each body xs s')"

text \<open>\<open>str.upper()\<close>, on the ASCII letters the condition names are written in.\<close>

definition upper_char :: "char \<Rightarrow> char" where
  "upper_char c =
     (if of_char c \<ge> (97 :: nat) \<and> of_char c \<le> (122 :: nat)
      then char_of (of_char c - (32 :: nat)) else c)"

definition upper :: "string \<Rightarrow> string" where
  "upper s = map upper_char s"

section \<open>The objects the notebooks read\<close>

text \<open>
  \<open>genessa.TimeSeries.states\<close> is a three-dimensional numpy array: trajectory, species,
  time point. A numpy array is rectangular, so the model is a shape and an item function
  that is read inside the shape only.
\<close>

record ndarray3 =
  shape0 :: nat
  shape1 :: nat
  shape2 :: nat
  item :: "nat \<Rightarrow> nat \<Rightarrow> nat \<Rightarrow> rat"

record TimeSeries =
  states :: ndarray3

text \<open>
  A \<open>Comparison\<close> as the notebooks use it: the attributes \<open>reference\<close>, \<open>compared\<close>,
  \<open>t\<close> (the time axis, here \<open>t_points\<close>) and \<open>threshold_error\<close>.
\<close>

record Comparison =
  reference :: TimeSeries
  compared :: TimeSeries
  t_points :: "rat list"
  threshold_error :: rat

text \<open>What \<open>ConditionSimulation.comparisons\<close> holds: a dict keyed by condition.\<close>

type_synonym comparisons = "(condition, Comparison) dict"

section \<open>Matplotlib, as a record of the calls made on it\<close>

text \<open>
  Matplotlib is an external collaborator. An axes object keeps what the notebook passed to
  it, call by call: the lines of \<open>ax.plot\<close>, the image of \<open>ax.imshow\<close>, labels, ticks
  and limits. Of matplotlib's own checks the model keeps the one a notebook call can meet:
  \<open>ax.plot(x, y)\<close> raises ValueError when \<open>x\<close> and \<open>y\<close> differ in length.
\<close>

record line2d =
  xdata :: "rat list"
  ydata :: "rat list"
  color :: string
  lw :: rat

record image =
  data :: "rat list list"
  cmap :: string
  vmin :: rat
  vmax :: rat

record axes =
  lines :: "line2d list"
  images :: "image list"
  title :: string
  xlabel :: string
  ylabel :: string
  xlim :: "(rat \<times> rat) option"
  xticks :: "int list option"
  yticks :: "int list option"
  xticklabels :: "string list option"
  yticklabels :: "string list option"

record figure =
  figsize :: "rat \<times> rat"
  ax :: axes

definition new_axes :: axes where
  "new_axes = \<lparr>lines = [], images = [], title = [], xlabel = [], ylabel = [],
     xlim = None, xticks = None, yticks = None, xticklabels = None, yticklabels = None\<rparr>"

text \<open>\<open>plt.subplots(figsize=...)\<close>: a new figure with one empty axes.\<close>

definition subplots :: "rat \<times> rat \<Rightarrow> figure" where
  "subplots wh = \<lparr>figsize = wh, ax = new_axes\<rparr>"

definition imshow :: "axes \<Rightarrow> rat list list \<Rightarrow> string \<Rightarrow> rat \<Rightarrow> rat \<Rightarrow> axes" where
  "imshow a m cm lo hi = a\<lparr>images := images a @ [\<lparr>data = m, cmap = cm, vmin = lo, vmax = hi\<rparr>]\<rparr>"

definition ax_plot :: "axes \<Rightarrow> rat list \<Rightarrow> rat list \<Rightarrow> string \<Rightarrow> rat \<Rightarrow> py_error + axes" where
  "ax_plot a x y c w =
     (if length x = length y
      then Inr (a\<lparr>lines := lines a @ [\<lparr>xdata = x, ydata = y, color = c, lw = w\<rparr>]\<rparr>)
      else Inl ValueError)"

section \<open>The heat maps\<close>

text \<open>\<open>np.zeros((r, c), dtype=float)\<close> and the two item assignments the notebooks use.\<close>

definition np_zeros :: "nat \<Rightarrow> nat \<Rightarrow> rat list list" where
  "np_zeros r c = replicate r (replicate c 0)"

text \<open>\<open>matrix[i, j] = v\<close>: both indices are checked against their axes.\<close>

definition np_setitem2 :: "rat list list \<Rightarrow> nat \<Rightarrow> int \<Rightarrow> int \<Rightarrow> rat \<Rightarrow> py_error + rat list list" where
  "np_setitem2 m ncols i j v =
     (case py_index (length m) i of Inl e \<Rightarrow> Inl e
      | Inr r \<Rightarrow>
         (case py_index ncols j of Inl e \<Rightarrow> Inl e
          | Inr c \<Rightarrow> Inr (m[r := (m ! r)[c := v]])))"

text \<open>\<open>matrix[i] = v\<close>: the scalar is broadcast over row \<open>i\<close>.\<close>

definition np_setrow :: "rat list list \<Rightarrow> nat \<Rightarrow> int \<Rightarrow> rat \<Rightarrow> py_error + rat list list" where
  "np_setrow m ncols i v =
     (case py_index (length m) i of Inl e \<Rightarrow> Inl e
      | Inr r \<Rightarrow> Inr (m[r := replicate ncols v]))"

text \<open>
  The repressor notebook's \<open>plot_heatmap\<close>. The loop body evaluates the right-hand side
  \<open>comparison[condition].threshold_error\<close> first (KeyError when the condition is
  missing), then assigns \<open>matrix[i, j]\<close> (IndexError outside the 3x3 array).
\<close>

definition assign_cell ::
  "condition \<Rightarrow> (int \<times> int) \<times> comparisons \<Rightarrow> rat list list \<Rightarrow> py_error + rat list list" where
  "assign_cell condition entry m =
     (case entry of ((i, j), comparison) \<Rightarrow>
        (case dict_getitem comparison condition of Inl e \<Rightarrow> Inl e
         | Inr c \<Rightarrow> np_setitem2 m 3 i j (threshold_error c)))"

definition assemble_matrix ::
  "((int \<times> int), comparisons) dict \<Rightarrow> condition \<Rightarrow> py_error + rat list list" where
  "assemble_matrix comparisons condition =
     for_each (assign_cell condition) comparisons (np_zeros 3 3)"

definition render_heatmap :: "rat list list \<Rightarrow> condition \<Rightarrow> figure" where
  "render_heatmap matrix condition =
     (let fig = subplots (3, 3);
          a = imshow (ax fig) (transpose matrix) ''copper_r'' 0 1;
          a = a\<lparr>title := upper condition\<rparr>;
          a = a\<lparr>xlabel := ''Primary Repressor Target''\<rparr>;
          a = a\<lparr>ylabel := ''Auxiliary Repressor Target''\<rparr>;
          a = a\<lparr>xticks := Some [0, 1, 2]\<rparr>;
          a = a\<lparr>yticks := Some [0, 1, 2]\<rparr>;
          a = a\<lparr>xticklabels := Some [''Gene'', ''mRNA'', ''Protein'']\<rparr>;
          a = a\<lparr>yticklabels := Some [''Gene'', ''mRNA'', ''Protein'']\<rparr>
      in fig\<lparr>ax := a\<rparr>)"

definition plot_heatmap ::
  "((int \<times> int), comparisons) dict \<Rightarrow> condition \<Rightarrow> py_error + figure" where
  "plot_heatmap comparisons condition =
     (case assemble_matrix comparisons condition of Inl e \<Rightarrow> Inl e
      | Inr matrix \<Rightarrow> Inr (render_heatmap matrix condition))"

text \<open>
  The promoter notebook's \<open>plot_heatmap\<close>: a 3x1 array, keyed by \<open>i\<close> alone, shown as it
  is (no transpose).
\<close>

definition assign_row ::
  "condition \<Rightarrow> int \<times> comparisons \<Rightarrow> rat list list \<Rightarrow> py_error + rat list list" where
  "assign_row condition entry m =
     (case entry of (i, comparison) \<Rightarrow>
        (case dict_getitem comparison condition of Inl e \<Rightarrow> Inl e
         | Inr c \<Rightarrow> np_setrow m 1 i (threshold_error c)))"

definition assemble_column :: "(int, comparisons) dict \<Rightarrow> condition \<Rightarrow> py_error + rat list list" where
  "assemble_column comparisons condition =
     for_each (assign_row condition) comparisons (np_zeros 3 1)"

definition render_column :: "rat list list \<Rightarrow> condition \<Rightarrow> figure" where
  "render_column matrix condition =
     (let fig = subplots (1, 3);
          a = imshow (ax fig) matrix ''copper_r'' 0 1;
          a = a\<lparr>title := upper condition\<rparr>;
          a = a\<lparr>ylabel := ''Auxiliary Promoter Target''\<rparr>;
          a = a\<lparr>xticks := Some []\<rparr>;
          a = a\<lparr>yticks := Some [0, 1, 2]\<rparr>;
          a = a\<lparr>yticklabels := Some [''Gene'', ''mRNA'', ''Protein'']\<rparr>
      in fig\<lparr>ax := a\<rparr>)"

definition plot_heatmap_promoters :: "(int, comparisons) dict \<Rightarrow> condition \<Rightarrow> py_error + figure" where
  "plot_heatmap_promoters comparisons condition =
     (case assemble_column comparisons condition of Inl e \<Rightarrow> Inl e
      | Inr matrix \<Rightarrow> Inr (render_column matrix condition))"

text \<open>The grid positions of the two heat maps, and what a cell should show.\<close>

definition grid :: "(int \<times> int) set" where
  "grid = {0, 1, 2} \<times> {0, 1, 2}"

definition cell_value :: "('k, comparisons) dict \<Rightarrow> condition \<Rightarrow> 'k \<Rightarrow> rat" where
  "cell_value comparisons condition k =
     (case map_of comparisons k of None \<Rightarrow> 0
      | Some comparison \<Rightarrow>
         (case map_of comparison condition of None \<Rightarrow> 0 | Some c \<Rightarrow> threshold_error c))"

definition has_condition :: "condition \<Rightarrow> ('k, comparisons) dict \<Rightarrow> bool" where
  "has_condition condition comparisons =
     list_all (\<lambda>entry. condition \<in> fst ` set (snd entry)) comparisons"

text \<open>
  The closed forms the proofs compare the assembled arrays with: a 3x3 array, and the
  matrix and the column of the cell values.
\<close>

definition is_3x3 :: "rat list list \<Rightarrow> bool" where
  "is_3x3 m = (length m = 3 \<and> list_all (\<lambda>row. length row = 3) m)"

definition heat_matrix :: "((int \<times> int), comparisons) dict \<Rightarrow> condition \<Rightarrow> rat list list" where
  "heat_matrix cs cond = map (\<lambda>a. map (\<lambda>b. cell_value cs cond (int a, int b)) [0..<3]) [0..<3]"

definition heat_column :: "(int, comparisons) dict \<Rightarrow> condition \<Rightarrow> rat list list" where
  "heat_column cs cond = map (\<lambda>a. [cell_value cs cond (int a)]) [0..<3]"

section \<open>Plotting sampled trajectories\<close>

text \<open>
  \<open>np.random.randint(low, high, size)\<close> with a one-dimensional size. For a size of zero
  numpy returns the empty array; otherwise it raises ValueError when the range
  \<open>[low, high)\<close> is empty, and else returns \<open>size\<close> integers of that range. The
  generator is external and its state is not modelled: \<open>randint_draws\<close> says which index
  vectors a call can return.
\<close>

definition randint_raises :: "int \<Rightarrow> int \<Rightarrow> nat \<Rightarrow> bool" where
  "randint_raises low high n = (0 < n \<and> high \<le> low)"

definition randint_draws :: "int \<Rightarrow> int \<Rightarrow> nat \<Rightarrow> int list \<Rightarrow> bool" where
  "randint_draws low high n ind = (length ind = n \<and> list_all (\<lambda>k. low \<le> k \<and> k < high) ind)"


text \<open>An index array applied to an axis of length \<open>n\<close>: every entry is checked.\<close>

fun py_indices :: "nat \<Rightarrow> int list \<Rightarrow> py_error + nat list" where
  "py_indices n [] = Inr []"
| "py_indices n (i # ind) =
     (case py_index n i of Inl e \<Rightarrow> Inl e
      | Inr k \<Rightarrow> (case py_indices n ind of Inl e \<Rightarrow> Inl e | Inr ks \<Rightarrow> Inr (k # ks)))"

text \<open>
  The time course of the last species of trajectory \<open>k\<close>, as the array stores it, and the
  selection \<open>states[ind, -1, :]\<close>: one such row per entry of \<open>ind\<close>.
\<close>

definition species_row :: "ndarray3 \<Rightarrow> nat \<Rightarrow> nat \<Rightarrow> rat list" where
  "species_row a s k = map (item a k s) [0..<shape2 a]"

definition getitem_last :: "ndarray3 \<Rightarrow> int list \<Rightarrow> py_error + rat list list" where
  "getitem_last a ind =
     (case py_index (shape1 a) (- 1) of Inl e \<Rightarrow> Inl e
      | Inr s \<Rightarrow>
         (case py_indices (shape0 a) ind of Inl e \<Rightarrow> Inl e
          | Inr ks \<Rightarrow> Inr (map (species_row a s) ks)))"

text \<open>
  \<open>plot_trajectories(comparison, ax, N)\<close>. The argument \<open>ind\<close> is the index vector the
  call of \<open>np.random.randint\<close> returned. The reference rows are selected and plotted
  before the compared rows are selected, and each loop stops at the first call of
  \<open>ax.plot\<close> that raises.
\<close>

definition plot_trajectories :: "Comparison \<Rightarrow> axes \<Rightarrow> nat \<Rightarrow> int list \<Rightarrow> py_error + axes" where
  "plot_trajectories comparison a N ind =
     (if randint_raises 0 (int (shape0 (states (reference comparison)))) N then Inl ValueError
      else
        (case getitem_last (states (reference comparison)) ind of Inl e \<Rightarrow> Inl e
         | Inr ref_rows \<Rightarrow>
            (case for_each
                    (\<lambda>trajectory a. ax_plot a (t_points comparison) trajectory ''m'' (1 / 2))
                    ref_rows a of
               Inl e \<Rightarrow> Inl e
             | Inr a \<Rightarrow>
                (case getitem_last (states (compared comparison)) ind of Inl e \<Rightarrow> Inl e
                 | Inr cmp_rows \<Rightarrow>
                    (case for_each
                            (\<lambda>trajectory a.
                               ax_plot a (t_points comparison) trajectory ''grey'' (1 / 2))
                            cmp_rows a of
                       Inl e \<Rightarrow> Inl e
                     | Inr a \<Rightarrow>
                        (let a = a\<lparr>ylabel := ''Protein level''\<rparr>;
                             a = a\<lparr>xlabel := ''Time (h)''\<rparr>;
                             a = a\<lparr>xlim := Some (- 2, 50)\<rparr>
                         in Inr a))))))"

text \<open>The line \<open>ax.plot(comparison.t, row, color=c, lw=0.5)\<close> adds.\<close>

definition plotted_line :: "Comparison \<Rightarrow> string \<Rightarrow> rat list \<Rightarrow> line2d" where
  "plotted_line comparison c row = \<lparr>xdata = t_points comparison, ydata = row, color = c, lw = 1 / 2\<rparr>"

section \<open>The parameter sweeps\<close>

text \<open>
  The classes \<open>LinearModel\<close> and \<open>ConditionSimulation\<close> are imported from the
  \<open>promoters\<close> package and the simulation runs in an external engine. The sweeps take
  them as parameters: the constructor with its keyword argument \<open>include_activation\<close>
  (\<open>None\<close> when the call leaves it out), the two methods that add regulatory elements with
  their keyword argument \<open>perturbed\<close>, and \<open>ConditionSimulation(model)\<close> followed by
  \<open>run(skwargs=dict(N=N))\<close> and the read of \<open>comparisons\<close>.
\<close>

record ('m, 'c) package =
  pkg_LinearModel :: "rat \<Rightarrow> rat \<Rightarrow> bool option \<Rightarrow> 'm"
  pkg_add_feedback :: "'m \<Rightarrow> rat list \<Rightarrow> bool option \<Rightarrow> 'm"
  pkg_add_promoters :: "'m \<Rightarrow> rat list \<Rightarrow> bool option \<Rightarrow> 'm"
  pkg_run :: "'m \<Rightarrow> nat \<Rightarrow> 'c"

text \<open>
  The state of a sweep cell: the dict \<open>comparisons\<close>, and a log of every model built and
  every simulation run (its model and \<open>N\<close>), in order.
\<close>

record ('k, 'm, 'c) sweep =
  sw_comparisons :: "('k, 'c) dict"
  sw_models :: "'m list"
  sw_simulations :: "('m \<times> nat) list"

definition empty_sweep :: "('k, 'm, 'c) sweep" where
  "empty_sweep = \<lparr>sw_comparisons = [], sw_models = [], sw_simulations = []\<rparr>"

text \<open>\<open>v = [0, 0, 0]; v[i] = eta[i]\<close>: the right-hand side is evaluated first.\<close>

definition define_strengths :: "rat list \<Rightarrow> int \<Rightarrow> py_error + rat list" where
  "define_strengths eta i =
     (case py_getitem eta i of Inl e \<Rightarrow> Inl e | Inr v \<Rightarrow> py_setitem [0, 0, 0] i v)"

definition repressor_body ::
  "('m, 'c) package \<Rightarrow> rat list \<Rightarrow> nat \<Rightarrow> int \<Rightarrow> int \<Rightarrow>
     (int \<times> int, 'm, 'c) sweep \<Rightarrow> py_error + (int \<times> int, 'm, 'c) sweep" where
  "repressor_body pkg eta N i j st =
     (case define_strengths eta i of Inl e \<Rightarrow> Inl e
      | Inr permanent \<Rightarrow>
         (case define_strengths eta j of Inl e \<Rightarrow> Inl e
          | Inr removed \<Rightarrow>
             (let model = pkg_LinearModel pkg (1 / 100) (1 / 1000) None;
                  model = pkg_add_feedback pkg model permanent None;
                  model = pkg_add_feedback pkg model removed (Some True)
              in Inr (st\<lparr>sw_models := sw_models st @ [model],
                         sw_simulations := sw_simulations st @ [(model, N)],
                         sw_comparisons :=
                           dict_setitem (sw_comparisons st) (i, j) (pkg_run pkg model N)\<rparr>))))"

definition repressor_sweep ::
  "('m, 'c) package \<Rightarrow> rat list \<Rightarrow> nat \<Rightarrow> py_error + (int \<times> int, 'm, 'c) sweep" where
  "repressor_sweep pkg eta N =
     for_each (\<lambda>i. for_each (\<lambda>j. repressor_body pkg eta N i j) (py_range 3)) (py_range 3)
       empty_sweep"

definition promoter_body ::
  "('m, 'c) package \<Rightarrow> rat list \<Rightarrow> nat \<Rightarrow> int \<Rightarrow>
     (int, 'm, 'c) sweep \<Rightarrow> py_error + (int, 'm, 'c) sweep" where
  "promoter_body pkg eta N i st =
     (case define_strengths eta i of Inl e \<Rightarrow> Inl e
      | Inr removed \<Rightarrow>
         (let model = pkg_LinearModel pkg (1 / 100) (1 / 1000) (Some True);
              model = pkg_add_promoters pkg model removed (Some True)
          in Inr (st\<lparr>sw_models := sw_models st @ [model],
                     sw_simulations := sw_simulations st @ [(model, N)],
                     sw_comparisons :=
                       dict_setitem (sw_comparisons st) i (pkg_run pkg model N)\<rparr>)))"

definition promoter_sweep ::
  "('m, 'c) package \<Rightarrow> rat list \<Rightarrow> nat \<Rightarrow> py_error + (int, 'm, 'c) sweep" where
  "promoter_sweep pkg eta N = for_each (promoter_body pkg eta N) (py_range 3) empty_sweep"

text \<open>The model each sweep builds at a grid position, and the nine pairs in loop order.\<close>

definition unit_strengths :: "rat list \<Rightarrow> int \<Rightarrow> rat list" where
  "unit_strengths eta i = [0, 0, 0][nat i := eta ! nat i]"

definition repressor_model :: "('m, 'c) package \<Rightarrow> rat list \<Rightarrow> int \<times> int \<Rightarrow> 'm" where
  "repressor_model pkg eta ij =
     pkg_add_feedback pkg
       (pkg_add_feedback pkg (pkg_LinearModel pkg (1 / 100) (1 / 1000) None)
          (unit_strengths eta (fst ij)) None)
       (unit_strengths eta (snd ij)) (Some True)"

definition promoter_model :: "('m, 'c) package \<Rightarrow> rat list \<Rightarrow> int \<Rightarrow> 'm" where
  "promoter_model pkg eta i =
     pkg_add_promoters pkg (pkg_LinearModel pkg (1 / 100) (1 / 1000) (Some True))
       (unit_strengths eta i) (Some True)"

definition pairs :: "(int \<times> int) list" where
  "pairs = [(0, 0), (0, 1), (0, 2), (1, 0), (1, 1), (1, 2), (2, 0), (2, 1), (2, 2)]"

text \<open>
  The strengths the two sweep notebooks set: \<open>eta = (5e-4, 1e-4, 5e-4)\<close> with
  \<open>N = 5000\<close> for the repressors, \<open>eta = (0.5, 0.5, 0.5)\<close> with \<open>N = 50\<close> for the
  promoters.
\<close>

definition repressor_eta :: "rat list" where
  "repressor_eta = [5 / 10000, 1 / 10000, 5 / 10000]"

definition promoter_eta :: "rat list" where
  "promoter_eta = [1 / 2, 1 / 2, 1 / 2]"

section \<open>Objects on a heap\<close>

text \<open>
  Python passes objects by reference, so a function can change what its caller holds.
  To state what the plotting functions leave alone, the objects live on a heap: a list of
  objects, an address is a position, and a new object is appended. The heap versions of
  the plotting functions take addresses and return the heap they leave behind.
\<close>

datatype obj =
    DictObj "(int \<times> int, comparisons) dict"
  | ComparisonObj Comparison
  | ArrayObj "rat list list"
  | FigureObj figure
  | AxesObj axes

type_synonym heap = "obj list"

definition heap_get :: "heap \<Rightarrow> nat \<Rightarrow> obj option" where
  "heap_get h p = (if p < length h then Some (h ! p) else None)"

text \<open>One iteration of the loop of \<open>plot_heatmap\<close>: the array at \<open>matrix\<close> is rewritten.\<close>

definition heap_assign_cell ::
  "nat \<Rightarrow> condition \<Rightarrow> (int \<times> int) \<times> comparisons \<Rightarrow> heap \<Rightarrow> py_error + heap" where
  "heap_assign_cell matrix condition entry h =
     (case heap_get h matrix of
        Some (ArrayObj m) \<Rightarrow>
          (case assign_cell condition entry m of Inl e \<Rightarrow> Inl e
           | Inr m' \<Rightarrow> Inr (h[matrix := ArrayObj m']))
      | _ \<Rightarrow> Inl AttributeError)"

text \<open>
  \<open>plot_heatmap(comparisons, condition)\<close> on the heap: \<open>np.zeros\<close> allocates the matrix,
  the loop reads the dict at \<open>comparisons\<close> and writes the matrix, \<open>plt.subplots\<close> and the
  calls on \<open>ax\<close> build a new figure. The result is the heap and the figure's address.
\<close>

definition heap_plot_heatmap :: "heap \<Rightarrow> nat \<Rightarrow> condition \<Rightarrow> py_error + heap \<times> nat" where
  "heap_plot_heatmap h comparisons condition =
     (case heap_get h comparisons of
        Some (DictObj cs) \<Rightarrow>
          (let matrix = length h;
               h = h @ [ArrayObj (np_zeros 3 3)]
           in case for_each (heap_assign_cell matrix condition) cs h of Inl e \<Rightarrow> Inl e
              | Inr h \<Rightarrow>
                 (case heap_get h matrix of
                    Some (ArrayObj m) \<Rightarrow>
                      Inr (h @ [FigureObj (render_heatmap m condition)], length h)
                  | _ \<Rightarrow> Inl AttributeError))
      | _ \<Rightarrow> Inl AttributeError)"

text \<open>The three metabolic conditions, in the order the notebooks loop over them.\<close>

definition conditions :: "condition list" where
  "conditions = [''normal'', ''diabetic'', ''hyper_metabolic'']"

text \<open>
  The cell \<open>for condition in (...): fig = plot_heatmap(comparisons, condition)\<close>: the
  state is the heap and the addresses of the figures made so far.
\<close>

definition heatmap_step :: "nat \<Rightarrow> condition \<Rightarrow> heap \<times> nat list \<Rightarrow> py_error + heap \<times> nat list" where
  "heatmap_step comparisons condition st =
     (case heap_plot_heatmap (fst st) comparisons condition of Inl e \<Rightarrow> Inl e
      | Inr (h, fig) \<Rightarrow> Inr (h, snd st @ [fig]))"

definition heatmap_cell :: "heap \<Rightarrow> nat \<Rightarrow> py_error + heap \<times> nat list" where
  "heatmap_cell h comparisons = for_each (heatmap_step comparisons) conditions (h, [])"

text \<open>
  \<open>plot_trajectories(comparison, ax, N)\<close> on the heap: the comparison is read, and the
  only object written is the axes.
\<close>

definition heap_plot_trajectories :: "heap \<Rightarrow> nat \<Rightarrow> nat \<Rightarrow> nat \<Rightarrow> int list \<Rightarrow> py_error + heap" where
  "heap_plot_trajectories h comparison ax_addr N ind =
     (case heap_get h comparison of
        Some (ComparisonObj c) \<Rightarrow>
          (case heap_get h ax_addr of
             Some (AxesObj a) \<Rightarrow>
               (case plot_trajectories c a N ind of Inl e \<Rightarrow> Inl e
                | Inr a' \<Rightarrow> Inr (h[ax_addr := AxesObj a']))
           | _ \<Rightarrow> Inl AttributeError)
      | _ \<Rightarrow> Inl AttributeError)"

section \<open>The package behind the notebooks\<close>

text \<open>
  Modelled from the spec: the modules \<open>promoters.models\<close>, \<open>promoters.simulation\<close> and
  \<open>promoters.analysis\<close> (the classes \<open>LinearModel\<close>, \<open>ConditionSimulation\<close> and
  \<open>Comparison\<close>) are not among the sources. The definitions of this section follow the
  words of the specification and of the notebooks' own text: a model is built from
  regulatory elements, some marked as perturbed; a simulation runs the external engine
  under each metabolic condition, before and after the perturbed elements are removed; a
  comparison holds both sets of dynamics and the frequency of errors among the compared
  trajectories under a threshold rule.
\<close>

datatype element_kind = Promoter | Repressor

record element =
  kind :: element_kind
  strengths :: "rat list"
  perturbed :: bool

record LinearModel =
  g1 :: rat
  g2 :: rat
  include_activation :: "bool option"
  elements :: "element list"

definition LinearModel_init :: "rat \<Rightarrow> rat \<Rightarrow> bool option \<Rightarrow> LinearModel" where
  "LinearModel_init a b act = \<lparr>g1 = a, g2 = b, include_activation = act, elements = []\<rparr>"

definition add_promoters :: "LinearModel \<Rightarrow> rat list \<Rightarrow> bool option \<Rightarrow> LinearModel" where
  "add_promoters model eta p =
     model\<lparr>elements := elements model @
       [\<lparr>kind = Promoter, strengths = eta, perturbed = (p = Some True)\<rparr>]\<rparr>"

definition add_feedback :: "LinearModel \<Rightarrow> rat list \<Rightarrow> bool option \<Rightarrow> LinearModel" where
  "add_feedback model eta p =
     model\<lparr>elements := elements model @
       [\<lparr>kind = Repressor, strengths = eta, perturbed = (p = Some True)\<rparr>]\<rparr>"

definition remove_perturbed :: "LinearModel \<Rightarrow> LinearModel" where
  "remove_perturbed model = model\<lparr>elements := filter (\<lambda>e. \<not> perturbed e) (elements model)\<rparr>"

text \<open>
  The external engine, a black box: a model, a condition and the number of trajectories
  give a time axis and the simulated dynamics. A threshold rule says whether a compared
  trajectory counts as a developmental error, given the reference set.
\<close>

type_synonym engine = "LinearModel \<Rightarrow> condition \<Rightarrow> nat \<Rightarrow> rat list \<times> TimeSeries"

type_synonym threshold_rule = "TimeSeries \<Rightarrow> TimeSeries \<Rightarrow> nat \<Rightarrow> bool"

text \<open>
  The error frequency: the share of the compared trajectories that the rule counts as
  errors. With no compared trajectory there is no frequency.
\<close>

definition error_count :: "threshold_rule \<Rightarrow> TimeSeries \<Rightarrow> TimeSeries \<Rightarrow> nat" where
  "error_count rule ref cmp = length (filter (rule ref cmp) [0..<shape0 (states cmp)])"

definition error_frequency :: "threshold_rule \<Rightarrow> TimeSeries \<Rightarrow> TimeSeries \<Rightarrow> rat option" where
  "error_frequency rule ref cmp =
     (if shape0 (states cmp) = 0 then None
      else Some (of_nat (error_count rule ref cmp) / of_nat (shape0 (states cmp))))"

definition Comparison_init ::
  "threshold_rule \<Rightarrow> rat list \<Rightarrow> TimeSeries \<Rightarrow> TimeSeries \<Rightarrow> Comparison option" where
  "Comparison_init rule t ref cmp =
     (case error_frequency rule ref cmp of None \<Rightarrow> None
      | Some e \<Rightarrow> Some \<lparr>reference = ref, compared = cmp, t_points = t, threshold_error = e\<rparr>)"

text \<open>One condition of \<open>ConditionSimulation.run\<close>, and the run over all three.\<close>

definition run_condition ::
  "engine \<Rightarrow> threshold_rule \<Rightarrow> LinearModel \<Rightarrow> nat \<Rightarrow> condition \<Rightarrow> Comparison option" where
  "run_condition sim rule model N condition =
     (let before = sim model condition N;
          after = sim (remove_perturbed model) condition N
      in Comparison_init rule (fst before) (snd before) (snd after))"

fun run_conditions ::
  "engine \<Rightarrow> threshold_rule \<Rightarrow> LinearModel \<Rightarrow> nat \<Rightarrow> condition list \<Rightarrow> comparisons option" where
  "run_conditions sim rule model N [] = Some []"
| "run_conditions sim rule model N (c # cs) =
     (case run_condition sim rule model N c of None \<Rightarrow> None
      | Some comparison \<Rightarrow>
         (case run_conditions sim rule model N cs of None \<Rightarrow> None
          | Some d \<Rightarrow> Some ((c, comparison) # d)))"

definition ConditionSimulation_run ::
  "engine \<Rightarrow> threshold_rule \<Rightarrow> LinearModel \<Rightarrow> nat \<Rightarrow> comparisons option" where
  "ConditionSimulation_run sim rule model N = run_conditions sim rule model N conditions"

section \<open>Concrete inputs\<close>

text \<open>Small concrete objects on which the theorems below are instantiated.\<close>

definition example_states :: "nat \<Rightarrow> nat \<Rightarrow> ndarray3" where
  "example_states n s =
     \<lparr>shape0 = n, shape1 = s, shape2 = 2, item = (\<lambda>k sp tp. of_nat (k + sp + tp))\<rparr>"

definition example_comparison :: "nat \<Rightarrow> nat \<Rightarrow> rat \<Rightarrow> Comparison" where
  "example_comparison n s e =
     \<lparr>reference = \<lparr>states = example_states n s\<rparr>, compared = \<lparr>states = example_states n s\<rparr>,
      t_points = [0, 1], threshold_error = e\<rparr>"

definition example_run :: "rat \<Rightarrow> comparisons" where
  "example_run e =
     [(''normal'', example_comparison 2 3 e),
      (''diabetic'', example_comparison 2 3 (e / 2)),
      (''hyper_metabolic'', example_comparison 2 3 0)]"

definition example_pairs :: "(int \<times> int, comparisons) dict" where
  "example_pairs = [((0, 1), example_run (1 / 4)), ((2, 2), example_run (1 / 2))]"

definition example_promoters :: "(int, comparisons) dict" where
  "example_promoters = [(1, example_run (3 / 4))]"

definition example_heap :: heap where
  "example_heap =
     [DictObj example_pairs, ComparisonObj (example_comparison 2 3 0), AxesObj new_axes]"

definition example_package :: "((rat list \<times> bool option) list, nat) package" where
  "example_package =
     \<lparr>pkg_LinearModel = (\<lambda>a b act. []),
      pkg_add_feedback = (\<lambda>model eta p. model @ [(eta, p)]),
      pkg_add_promoters = (\<lambda>model eta p. model @ [(eta, p)]),
      pkg_run = (\<lambda>model N. N)\<rparr>"

definition example_engine :: engine where
  "example_engine model condition N =
     ([0, 1], \<lparr>states = example_states N (length (elements model) + 1)\<rparr>)"

definition example_rule :: threshold_rule where
  "example_rule ref cmp k = (k = 0)"

definition example_model :: LinearModel where
  "example_model =
     add_promoters (LinearModel_init (1 / 100) (1 / 1000) (Some True)) [0, 0, 1 / 2] (Some True)"

section \<open>Facts about the heat maps\<close>

lemma is_3x3_zeros: "is_3x3 (np_zeros 3 3)"
  by (simp add: is_3x3_def np_zeros_def numeral_3_eq_3)

lemma is_3x3_nth: "is_3x3 m \<Longrightarrow> r < 3 \<Longrightarrow> length (m ! r) = 3"
  by (simp add: is_3x3_def list_all_length)

lemma is_3x3_update: "is_3x3 m \<Longrightarrow> r < 3 \<Longrightarrow> is_3x3 (m[r := (m ! r)[c := v]])"
  by (auto simp add: is_3x3_def list_all_length nth_list_update)

lemma py_index_grid: "i \<in> {0, 1, 2} \<Longrightarrow> py_index 3 i = Inr (nat i)"
  by (auto simp add: py_index_def)

lemma has_condition_Cons:
  "has_condition cond ((k, comparison) # cs) \<longleftrightarrow>
     cond \<in> fst ` set comparison \<and> has_condition cond cs"
  by (simp add: has_condition_def)

lemma dict_getitem_present:
  "cond \<in> fst ` set d \<Longrightarrow> \<exists>c. dict_getitem d cond = Inr c \<and> map_of d cond = Some c"
  by (cases "map_of d cond") (auto simp add: dict_getitem_def map_of_eq_None_iff)

lemma assemble_cells:
  assumes "distinct (map fst cs)" and "fst ` set cs \<subseteq> grid" and "has_condition cond cs"
    and "is_3x3 m"
  shows "\<exists>m'. for_each (assign_cell cond) cs m = Inr m' \<and> is_3x3 m' \<and>
           (\<forall>a<3. \<forall>b<3. m' ! a ! b =
              (if (int a, int b) \<in> fst ` set cs then cell_value cs cond (int a, int b)
               else m ! a ! b))"
  using assms
proof (induction cs arbitrary: m)
  case Nil
  then show ?case by simp
next
  case (Cons entry cs)
  obtain i j comparison where entry: "entry = ((i, j), comparison)"
    by (metis prod.exhaust)
  from Cons.prems entry have ij: "i \<in> {0, 1, 2}" "j \<in> {0, 1, 2}"
    by (auto simp add: grid_def)
  from Cons.prems entry have fresh: "(i, j) \<notin> fst ` set cs" and dist: "distinct (map fst cs)"
    and sub: "fst ` set cs \<subseteq> grid" and hc: "has_condition cond cs"
    and here: "cond \<in> fst ` set comparison"
    by (auto simp add: has_condition_Cons)
  from dict_getitem_present [OF here] obtain c
    where c: "dict_getitem comparison cond = Inr c" "map_of comparison cond = Some c"
    by blast
  define m1 where "m1 = m[nat i := (m ! nat i)[nat j := threshold_error c]]"
  have step: "assign_cell cond entry m = Inr m1"
    using ij c Cons.prems(4)
    by (simp add: assign_cell_def entry np_setitem2_def py_index_grid is_3x3_def m1_def)
  have ni: "nat i < 3" "nat j < 3" using ij by auto
  have m1: "is_3x3 m1"
    unfolding m1_def using Cons.prems(4) ni(1) by (rule is_3x3_update)
  from Cons.IH [OF dist sub hc m1] obtain m' where
    m': "for_each (assign_cell cond) cs m1 = Inr m'" "is_3x3 m'"
    and cells: "\<forall>a<3. \<forall>b<3. m' ! a ! b =
              (if (int a, int b) \<in> fst ` set cs then cell_value cs cond (int a, int b)
               else m1 ! a ! b)"
    by blast
  have run: "for_each (assign_cell cond) (entry # cs) m = Inr m'"
    using step m'(1) by simp
  have "m' ! a ! b =
          (if (int a, int b) \<in> fst ` set (entry # cs)
           then cell_value (entry # cs) cond (int a, int b) else m ! a ! b)"
    if ab: "a < 3" "b < 3" for a b
  proof (cases "(int a, int b) = (i, j)")
    case True
    then have a: "a = nat i" "b = nat j" by auto
    have "m' ! a ! b = m1 ! a ! b"
      using cells ab fresh True by auto
    also have "\<dots> = threshold_error c"
      using Cons.prems(4) ni a by (simp add: m1_def is_3x3_nth is_3x3_def)
    finally show ?thesis
      using True c by (simp add: entry cell_value_def)
  next
    case False
    have same: "m1 ! a ! b = m ! a ! b"
      using False ab ij Cons.prems(4)
      by (auto simp add: m1_def nth_list_update is_3x3_def)
    have cv: "cell_value (entry # cs) cond (int a, int b) = cell_value cs cond (int a, int b)"
      using False by (auto simp add: cell_value_def entry)
    show ?thesis
      using cells ab False same cv by (auto simp add: entry)
  qed
  with run m'(2) show ?case by blast
qed

lemma is_3x3_eqI:
  assumes "is_3x3 m" and "is_3x3 m'" and "\<And>a b. a < 3 \<Longrightarrow> b < 3 \<Longrightarrow> m ! a ! b = m' ! a ! b"
  shows "m = m'"
proof (rule nth_equalityI)
  show "length m = length m'" using assms(1,2) by (simp add: is_3x3_def)
next
  fix a assume "a < length m"
  then have a: "a < 3" using assms(1) by (simp add: is_3x3_def)
  show "m ! a = m' ! a"
  proof (rule nth_equalityI)
    show "length (m ! a) = length (m' ! a)"
      using assms(1,2) a by (simp add: is_3x3_nth)
  next
    fix b assume "b < length (m ! a)"
    then have "b < 3" using assms(1) a by (simp add: is_3x3_nth)
    with a show "m ! a ! b = m' ! a ! b" by (rule assms(3))
  qed
qed

lemma is_3x3_heat_matrix: "is_3x3 (heat_matrix cs cond)"
  by (simp add: is_3x3_def heat_matrix_def list_all_length)

lemma cell_value_absent: "k \<notin> fst ` set cs \<Longrightarrow> cell_value cs cond k = 0"
proof -
  assume "k \<notin> fst ` set cs"
  then have "map_of cs k = None" by (simp add: map_of_eq_None_iff)
  then show ?thesis by (simp add: cell_value_def)
qed

lemma np_zeros_nth: "a < 3 \<Longrightarrow> b < 3 \<Longrightarrow> np_zeros 3 3 ! a ! b = 0"
  by (simp add: np_zeros_def)

lemma assemble_matrix_eq:
  assumes "distinct (map fst cs)" and "fst ` set cs \<subseteq> grid" and "has_condition cond cs"
  shows "assemble_matrix cs cond = Inr (heat_matrix cs cond)"
proof -
  from assemble_cells [OF assms is_3x3_zeros] obtain m' where
    run: "for_each (assign_cell cond) cs (np_zeros 3 3) = Inr m'" and ok: "is_3x3 m'"
    and cells: "\<forall>a<3. \<forall>b<3. m' ! a ! b =
              (if (int a, int b) \<in> fst ` set cs then cell_value cs cond (int a, int b)
               else np_zeros 3 3 ! a ! b)"
    by blast
  have "m' = heat_matrix cs cond"
  proof (rule is_3x3_eqI [OF ok is_3x3_heat_matrix])
    fix a b :: nat assume ab: "a < 3" "b < 3"
    then have "m' ! a ! b = cell_value cs cond (int a, int b)"
      using cells by (simp add: cell_value_absent np_zeros_nth)
    then show "m' ! a ! b = heat_matrix cs cond ! a ! b"
      using ab by (simp add: heat_matrix_def)
  qed
  with run show ?thesis by (simp add: assemble_matrix_def)
qed

lemma transpose_3x3:
  assumes "is_3x3 m"
  shows "transpose m = map (\<lambda>b. map (\<lambda>a. m ! a ! b) [0..<3]) [0..<3]"
proof -
  have "transpose m = map (\<lambda>b. map (\<lambda>a. m ! a ! b) [0..<length m]) [0..<3]"
  proof (rule transpose_rectangle)
    show "m = [] \<Longrightarrow> 3 = 0" using assms by (auto simp add: is_3x3_def)
  next
    fix i assume "i < length m"
    then show "length (m ! i) = 3" using assms by (simp add: is_3x3_def list_all_length)
  qed
  then show ?thesis using assms by (simp add: is_3x3_def)
qed

lemma assemble_rows:
  assumes "distinct (map fst cs)" and "fst ` set cs \<subseteq> {0, 1, 2}" and "has_condition cond cs"
    and "length m = 3"
  shows "\<exists>m'. for_each (assign_row cond) cs m = Inr m' \<and> length m' = 3 \<and>
           (\<forall>a<3. m' ! a =
              (if int a \<in> fst ` set cs then [cell_value cs cond (int a)] else m ! a))"
  using assms
proof (induction cs arbitrary: m)
  case Nil
  then show ?case by simp
next
  case (Cons entry cs)
  obtain i comparison where entry: "entry = (i, comparison)"
    by (metis prod.exhaust)
  from Cons.prems entry have i: "i \<in> {0, 1, 2}"
    by auto
  from Cons.prems entry have fresh: "i \<notin> fst ` set cs" and dist: "distinct (map fst cs)"
    and sub: "fst ` set cs \<subseteq> {0, 1, 2}" and hc: "has_condition cond cs"
    and here: "cond \<in> fst ` set comparison"
    by (auto simp add: has_condition_Cons)
  from dict_getitem_present [OF here] obtain c
    where c: "dict_getitem comparison cond = Inr c" "map_of comparison cond = Some c"
    by blast
  define m1 where "m1 = m[nat i := [threshold_error c]]"
  have step: "assign_row cond entry m = Inr m1"
    using i c Cons.prems(4)
    by (simp add: assign_row_def entry np_setrow_def py_index_grid m1_def)
  have ni: "nat i < 3" using i by auto
  have m1: "length m1 = 3"
    using Cons.prems(4) by (simp add: m1_def)
  from Cons.IH [OF dist sub hc m1] obtain m' where
    m': "for_each (assign_row cond) cs m1 = Inr m'" "length m' = 3"
    and cells: "\<forall>a<3. m' ! a =
              (if int a \<in> fst ` set cs then [cell_value cs cond (int a)] else m1 ! a)"
    by blast
  have run: "for_each (assign_row cond) (entry # cs) m = Inr m'"
    using step m'(1) by simp
  have "m' ! a =
          (if int a \<in> fst ` set (entry # cs)
           then [cell_value (entry # cs) cond (int a)] else m ! a)"
    if a: "a < 3" for a
  proof (cases "int a = i")
    case True
    then have "m' ! a = m1 ! a"
      using cells a fresh by auto
    also have "\<dots> = [threshold_error c]"
      using Cons.prems(4) ni True by (auto simp add: m1_def)
    finally show ?thesis
      using True c by (simp add: entry cell_value_def)
  next
    case False
    have same: "m1 ! a = m ! a"
      using False a i by (auto simp add: m1_def nth_list_update)
    have cv: "cell_value (entry # cs) cond (int a) = cell_value cs cond (int a)"
      using False by (auto simp add: cell_value_def entry)
    show ?thesis
      using cells a False same cv by (auto simp add: entry)
  qed
  with run m'(2) show ?case by blast
qed

lemma assemble_column_eq:
  assumes "distinct (map fst cs)" and "fst ` set cs \<subseteq> {0, 1, 2}" and "has_condition cond cs"
  shows "assemble_column cs cond = Inr (heat_column cs cond)"
proof -
  have z: "length (np_zeros 3 1) = 3" by (simp add: np_zeros_def)
  from assemble_rows [OF assms z] obtain m' where
    run: "for_each (assign_row cond) cs (np_zeros 3 1) = Inr m'" and len: "length m' = 3"
    and cells: "\<forall>a<3. m' ! a =
              (if int a \<in> fst ` set cs then [cell_value cs cond (int a)]
               else np_zeros 3 1 ! a)"
    by blast
  have "m' = heat_column cs cond"
  proof (rule nth_equalityI)
    show "length m' = length (heat_column cs cond)"
      using len by (simp add: heat_column_def)
  next
    fix a assume "a < length m'"
    then have a: "a < 3" using len by simp
    then have "m' ! a = [cell_value cs cond (int a)]"
      using cells by (simp add: cell_value_absent np_zeros_def)
    then show "m' ! a = heat_column cs cond ! a"
      using a by (simp add: heat_column_def)
  qed
  with run show ?thesis by (simp add: assemble_column_def)
qed

lemma cell_value_present:
  assumes "map_of cs k = Some comparison" and "has_condition cond cs"
  shows "\<exists>c. dict_getitem comparison cond = Inr c \<and> cell_value cs cond k = threshold_error c"
proof -
  from assms(1) have "(k, comparison) \<in> set cs" by (rule map_of_SomeD)
  with assms(2) have "cond \<in> fst ` set (snd (k, comparison))"
    unfolding has_condition_def list_all_iff by blast
  then have "cond \<in> fst ` set comparison" by simp
  from dict_getitem_present [OF this] obtain c
    where "dict_getitem comparison cond = Inr c" "map_of comparison cond = Some c" by blast
  with assms(1) show ?thesis by (simp add: cell_value_def)
qed

lemma cell_value_cases:
  assumes "has_condition cond cs"
  shows "case map_of cs k of None \<Rightarrow> cell_value cs cond k = 0
         | Some comparison \<Rightarrow>
             \<exists>c. dict_getitem comparison cond = Inr c \<and> cell_value cs cond k = threshold_error c"
proof (cases "map_of cs k")
  case None
  then show ?thesis by (simp add: cell_value_def)
next
  case (Some comparison)
  with cell_value_present [OF Some assms] show ?thesis by simp
qed

lemma images_render_heatmap:
  "images (ax (render_heatmap m cond)) =
     [\<lparr>data = transpose m, cmap = ''copper_r'', vmin = 0, vmax = 1\<rparr>]"
  by (simp add: render_heatmap_def Let_def subplots_def imshow_def new_axes_def)

lemma images_render_column:
  "images (ax (render_column m cond)) = [\<lparr>data = m, cmap = ''copper_r'', vmin = 0, vmax = 1\<rparr>]"
  by (simp add: render_column_def Let_def subplots_def imshow_def new_axes_def)

lemma example_pairs_ok:
  "distinct (map fst example_pairs) \<and> fst ` set example_pairs \<subseteq> grid \<and>
   has_condition ''normal'' example_pairs"
  by (simp add: example_pairs_def example_run_def grid_def has_condition_def)

lemma example_promoters_ok:
  "distinct (map fst example_promoters) \<and> fst ` set example_promoters \<subseteq> {0, 1, 2} \<and>
   has_condition ''normal'' example_promoters"
  by (simp add: example_promoters_def example_run_def has_condition_def)

lemma dict_setitem_fresh: "k \<notin> fst ` set d \<Longrightarrow> dict_setitem d k v = d @ [(k, v)]"
  by (induction d) auto

lemma has_condition_append:
  "has_condition cond (cs @ [(k, comparison)]) \<longleftrightarrow>
     has_condition cond cs \<and> cond \<in> fst ` set comparison"
  by (simp add: has_condition_def)

lemma dict_getitem_Inr: "dict_getitem d k = Inr v \<Longrightarrow> map_of d k = Some v \<and> k \<in> fst ` set d"
proof -
  assume "dict_getitem d k = Inr v"
  then have m: "map_of d k = Some v"
    by (simp add: dict_getitem_def split: option.splits)
  then have "(k, v) \<in> set d" by (rule map_of_SomeD)
  then have "k \<in> fst ` set d" by force
  with m show ?thesis by simp
qed

lemma cell_value_zero_entry:
  assumes fresh: "k \<notin> fst ` set cs"
    and get: "dict_getitem comparison cond = Inr c" and zero: "threshold_error c = 0"
  shows "cell_value (cs @ [(k, comparison)]) cond k' = cell_value cs cond k'"
proof (cases "k' = k")
  case True
  from fresh have none: "map_of cs k = None" by (simp add: map_of_eq_None_iff)
  from get have "map_of comparison cond = Some c" by (simp add: dict_getitem_Inr)
  with none zero True show ?thesis
    by (simp add: cell_value_def map_add_def map_of_append)
next
  case False
  then show ?thesis
    by (simp add: cell_value_def map_of_append map_add_def split: option.splits)
qed

lemma grid_nat: "a < 3 \<Longrightarrow> b < 3 \<Longrightarrow> (int a, int b) \<in> grid"
  unfolding grid_def by (simp add: less_Suc_eq numeral_3_eq_3) presburger

text \<open>
  \<open>plot_heatmap\<close> reads a mapping through the error frequencies at the grid positions
  only: two mappings that agree there give the same figure.
\<close>

lemma plot_heatmap_same_cells:
  assumes "distinct (map fst cs)" and "fst ` set cs \<subseteq> grid" and "has_condition cond cs"
    and "distinct (map fst cs')" and "fst ` set cs' \<subseteq> grid" and "has_condition cond cs'"
    and same: "\<And>k. k \<in> grid \<Longrightarrow> cell_value cs cond k = cell_value cs' cond k"
  shows "plot_heatmap cs cond = plot_heatmap cs' cond"
proof -
  have "cell_value cs cond (int a, int b) = cell_value cs' cond (int a, int b)"
    if "a < 3" "b < 3" for a b
    using that by (intro same grid_nat)
  then have "heat_matrix cs cond = heat_matrix cs' cond"
    by (simp add: heat_matrix_def)
  then show ?thesis
    unfolding plot_heatmap_def assemble_matrix_eq [OF assms(1-3)] assemble_matrix_eq [OF assms(4-6)]
    by simp
qed

section \<open>Facts about the sweeps, the sampled trajectories and the heap\<close>

lemma py_range_3: "py_range 3 = [0, 1, 2]"
  by (simp add: py_range_def numeral_3_eq_3 upt_rec)

lemma define_strengths_unit:
  assumes "3 \<le> length eta" and "i \<in> {0, 1, 2}"
  shows "define_strengths eta i = Inr (unit_strengths eta i)"
  using assms
  by (auto simp add: define_strengths_def py_getitem_def py_setitem_def py_index_def
      unit_strengths_def)

lemma repressor_body_step:
  assumes "3 \<le> length eta" and "i \<in> {0, 1, 2}" and "j \<in> {0, 1, 2}"
  shows "repressor_body pkg eta N i j st =
           Inr (st\<lparr>sw_models := sw_models st @ [repressor_model pkg eta (i, j)],
                  sw_simulations := sw_simulations st @ [(repressor_model pkg eta (i, j), N)],
                  sw_comparisons := dict_setitem (sw_comparisons st) (i, j)
                     (pkg_run pkg (repressor_model pkg eta (i, j)) N)\<rparr>)"
  using assms
  by (simp add: repressor_body_def define_strengths_unit repressor_model_def Let_def)

lemma promoter_body_step:
  assumes "3 \<le> length eta" and "i \<in> {0, 1, 2}"
  shows "promoter_body pkg eta N i st =
           Inr (st\<lparr>sw_models := sw_models st @ [promoter_model pkg eta i],
                  sw_simulations := sw_simulations st @ [(promoter_model pkg eta i, N)],
                  sw_comparisons := dict_setitem (sw_comparisons st) i
                     (pkg_run pkg (promoter_model pkg eta i) N)\<rparr>)"
  using assms
  by (simp add: promoter_body_def define_strengths_unit promoter_model_def Let_def)

lemma repressor_sweep_eq:
  assumes "3 \<le> length eta"
  shows "repressor_sweep pkg eta N =
           Inr \<lparr>sw_comparisons =
                  map (\<lambda>ij. (ij, pkg_run pkg (repressor_model pkg eta ij) N)) pairs,
                sw_models = map (repressor_model pkg eta) pairs,
                sw_simulations = map (\<lambda>ij. (repressor_model pkg eta ij, N)) pairs\<rparr>"
  using assms
  by (simp add: repressor_sweep_def py_range_3 repressor_body_step empty_sweep_def pairs_def)

lemma promoter_sweep_eq:
  assumes "3 \<le> length eta"
  shows "promoter_sweep pkg eta N =
           Inr \<lparr>sw_comparisons =
                  map (\<lambda>i. (i, pkg_run pkg (promoter_model pkg eta i) N)) (py_range 3),
                sw_models = map (promoter_model pkg eta) (py_range 3),
                sw_simulations = map (\<lambda>i. (promoter_model pkg eta i, N)) (py_range 3)\<rparr>"
  using assms
  by (simp add: promoter_sweep_def py_range_3 promoter_body_step empty_sweep_def)

lemma unit_strengths_nth:
  assumes "i \<in> {0, 1, 2}" and "k < 3"
  shows "length (unit_strengths eta i) = 3"
    and "unit_strengths eta i ! k = (if int k = i then eta ! k else 0)"
  using assms by (auto simp add: unit_strengths_def nth_list_update less_Suc_eq numeral_3_eq_3 numeral_2_eq_2)

lemma for_each_ax_plot:
  assumes "\<forall>row \<in> set rows. length row = length (t_points c)"
  shows "for_each (\<lambda>trajectory a. ax_plot a (t_points c) trajectory col (1 / 2)) rows a =
           Inr (a\<lparr>lines := lines a @ map (plotted_line c col) rows\<rparr>)"
  using assms
proof (induction rows arbitrary: a)
  case Nil
  then show ?case by simp
next
  case (Cons row rows)
  then show ?case by (simp add: ax_plot_def plotted_line_def)
qed

lemma for_each_ax_plot_Inr:
  assumes "for_each (\<lambda>trajectory a. ax_plot a (t_points c) trajectory col (1 / 2)) rows a = Inr a'"
  shows "a' = a\<lparr>lines := lines a @ map (plotted_line c col) rows\<rparr>"
  using assms
proof (induction rows arbitrary: a)
  case Nil
  then show ?case by simp
next
  case (Cons row rows)
  from Cons.prems have len: "length (t_points c) = length row"
    by (auto simp add: ax_plot_def split: if_splits)
  with Cons.prems have
    "for_each (\<lambda>trajectory a. ax_plot a (t_points c) trajectory col (1 / 2)) rows
       (a\<lparr>lines := lines a @ [plotted_line c col row]\<rparr>) = Inr a'"
    by (simp add: ax_plot_def plotted_line_def)
  from Cons.IH [OF this] show ?case by simp
qed

lemma length_species_row: "length (species_row a s k) = shape2 a"
  by (simp add: species_row_def)

lemma py_indices_draw:
  assumes "list_all (\<lambda>k. 0 \<le> k \<and> k < int n) ind"
  shows "py_indices n ind = Inr (map nat ind)"
  using assms by (induction ind) (simp_all add: py_index_def)

lemma py_indices_Inr:
  assumes "py_indices n ind = Inr ks"
  shows "length ks = length ind \<and> list_all (\<lambda>k. k < n) ks"
  using assms
proof (induction ind arbitrary: ks)
  case Nil
  then show ?case by simp
next
  case (Cons i ind)
  then show ?case
    by (auto simp add: py_index_def split: sum.splits if_splits)
qed

lemma py_index_last: "0 < n \<Longrightarrow> py_index n (- 1) = Inr (n - 1)"
  by (auto simp add: py_index_def nat_diff_distrib')

lemma py_index_last_empty: "py_index 0 (- 1) = Inl IndexError"
  by (simp add: py_index_def)

lemma getitem_last_draw:
  assumes "0 < shape1 a" and "list_all (\<lambda>k. 0 \<le> k \<and> k < int (shape0 a)) ind"
  shows "getitem_last a ind = Inr (map (\<lambda>k. species_row a (shape1 a - 1) (nat k)) ind)"
  using assms by (simp add: getitem_last_def py_index_last py_indices_draw comp_def)

lemma getitem_last_Inr:
  assumes "getitem_last a ind = Inr rows"
  shows "0 < shape1 a \<and>
         (\<exists>ks. py_indices (shape0 a) ind = Inr ks \<and> rows = map (species_row a (shape1 a - 1)) ks)"
proof (cases "shape1 a = 0")
  case True
  with assms show ?thesis by (simp add: getitem_last_def py_index_last_empty)
next
  case False
  then have "0 < shape1 a" by simp
  with assms show ?thesis
    by (auto simp add: getitem_last_def py_index_last split: sum.splits)
qed

lemma draws_mono:
  assumes "randint_draws 0 (int n) N ind" and "n \<le> m"
  shows "list_all (\<lambda>k. 0 \<le> k \<and> k < int m) ind"
  using assms by (auto simp add: randint_draws_def list_all_iff)

lemma draws_empty: "randint_draws low high 0 ind \<Longrightarrow> ind = []"
  by (simp add: randint_draws_def)

lemma plot_trajectories_draw:
  assumes pos: "N = 0 \<or> 0 < shape0 (states (reference c))"
    and s1: "0 < shape1 (states (reference c))" and s2: "0 < shape1 (states (compared c))"
    and le: "shape0 (states (reference c)) \<le> shape0 (states (compared c))"
    and tm: "N = 0 \<or> length (t_points c) = shape2 (states (reference c)) \<and>
                length (t_points c) = shape2 (states (compared c))"
    and draw: "randint_draws 0 (int (shape0 (states (reference c)))) N ind"
  shows "plot_trajectories c a N ind =
           Inr (a\<lparr>lines := lines a @
                   map (\<lambda>k. plotted_line c ''m''
                         (species_row (states (reference c))
                            (shape1 (states (reference c)) - 1) (nat k))) ind @
                   map (\<lambda>k. plotted_line c ''grey''
                         (species_row (states (compared c))
                            (shape1 (states (compared c)) - 1) (nat k))) ind,
                 ylabel := ''Protein level'', xlabel := ''Time (h)'', xlim := Some (- 2, 50)\<rparr>)"
proof -
  let ?ref = "map (\<lambda>k. species_row (states (reference c))
      (shape1 (states (reference c)) - 1) (nat k)) ind"
  let ?cmp = "map (\<lambda>k. species_row (states (compared c))
      (shape1 (states (compared c)) - 1) (nat k)) ind"
  have nr: "\<not> randint_raises 0 (int (shape0 (states (reference c)))) N"
    using pos by (auto simp add: randint_raises_def)
  have r: "getitem_last (states (reference c)) ind = Inr ?ref"
    using s1 draws_mono [OF draw order_refl] by (rule getitem_last_draw)
  have q: "getitem_last (states (compared c)) ind = Inr ?cmp"
    using s2 draws_mono [OF draw le] by (rule getitem_last_draw)
  have e: "ind = [] \<or> length (t_points c) = shape2 (states (reference c)) \<and>
                length (t_points c) = shape2 (states (compared c))"
    using tm draw by (auto dest: draws_empty)
  have lr: "\<forall>row \<in> set ?ref. length row = length (t_points c)"
    using e by (auto simp add: length_species_row)
  have lc: "\<forall>row \<in> set ?cmp. length row = length (t_points c)"
    using e by (auto simp add: length_species_row)
  show ?thesis
    unfolding plot_trajectories_def
    by (simp only: nr if_False r q sum.case for_each_ax_plot [OF lr] for_each_ax_plot [OF lc]
        Let_def) simp
qed

lemma heap_loop_refines:
  "for_each (heap_assign_cell (length h) cond) cs (h @ [ArrayObj m]) =
     (case for_each (assign_cell cond) cs m of Inl e \<Rightarrow> Inl e
      | Inr m' \<Rightarrow> Inr (h @ [ArrayObj m']))"
proof (induction cs arbitrary: m)
  case Nil
  then show ?case by simp
next
  case (Cons entry cs)
  show ?case
  proof (cases "assign_cell cond entry m")
    case (Inl e)
    then show ?thesis by (simp add: heap_assign_cell_def heap_get_def)
  next
    case (Inr m1)
    then have "heap_assign_cell (length h) cond entry (h @ [ArrayObj m]) = Inr (h @ [ArrayObj m1])"
      by (simp add: heap_assign_cell_def heap_get_def)
    with Inr Cons.IH [of m1] show ?thesis by simp
  qed
qed

lemma heap_plot_heatmap_refines:
  assumes "heap_get h a = Some (DictObj cs)"
  shows "heap_plot_heatmap h a cond =
           (case assemble_matrix cs cond of Inl e \<Rightarrow> Inl e
            | Inr m \<Rightarrow>
                Inr (h @ [ArrayObj m, FigureObj (render_heatmap m cond)], Suc (length h)))"
  using assms
  by (simp add: heap_plot_heatmap_def Let_def heap_loop_refines assemble_matrix_def heap_get_def
      nth_append split: sum.splits)

lemma heap_plot_heatmap_Inr:
  assumes "heap_plot_heatmap h a cond = Inr (h', f)"
  shows "\<exists>cs m. heap_get h a = Some (DictObj cs) \<and> assemble_matrix cs cond = Inr m \<and>
           h' = h @ [ArrayObj m, FigureObj (render_heatmap m cond)] \<and> f = Suc (length h)"
proof (cases "heap_get h a")
  case None
  with assms show ?thesis by (simp add: heap_plot_heatmap_def)
next
  case (Some ob)
  show ?thesis
  proof (cases ob)
    case (DictObj cs)
    with Some have g: "heap_get h a = Some (DictObj cs)" by simp
    from assms show ?thesis
      unfolding heap_plot_heatmap_refines [OF g] using g by (auto split: sum.splits)
  qed (use assms Some in \<open>simp_all add: heap_plot_heatmap_def\<close>)
qed

lemma heap_get_append: "heap_get h a = Some ob \<Longrightarrow> heap_get (h @ h') a = Some ob"
  by (auto simp add: heap_get_def nth_append split: if_splits)

lemma heatmap_cell_Inr:
  assumes "heatmap_cell h a = Inr (h', figs)"
  shows "\<exists>cs m1 m2 m3.
           heap_get h a = Some (DictObj cs) \<and>
           assemble_matrix cs ''normal'' = Inr m1 \<and>
           assemble_matrix cs ''diabetic'' = Inr m2 \<and>
           assemble_matrix cs ''hyper_metabolic'' = Inr m3 \<and>
           h' = h @ [ArrayObj m1, FigureObj (render_heatmap m1 ''normal''),
                     ArrayObj m2, FigureObj (render_heatmap m2 ''diabetic''),
                     ArrayObj m3, FigureObj (render_heatmap m3 ''hyper_metabolic'')] \<and>
           figs = [length h + 1, length h + 3, length h + 5]"
proof -
  from assms obtain h1 f1 where s1: "heap_plot_heatmap h a ''normal'' = Inr (h1, f1)"
    by (auto simp add: heatmap_cell_def conditions_def heatmap_step_def split: sum.splits)
  from heap_plot_heatmap_Inr [OF s1] obtain cs m1 where
    g: "heap_get h a = Some (DictObj cs)" and a1: "assemble_matrix cs ''normal'' = Inr m1"
    and h1: "h1 = h @ [ArrayObj m1, FigureObj (render_heatmap m1 ''normal'')]"
    and f1: "f1 = Suc (length h)"
    by blast
  have g1: "heap_get h1 a = Some (DictObj cs)"
    unfolding h1 using g by (rule heap_get_append)
  from assms s1 obtain h2 f2 where s2: "heap_plot_heatmap h1 a ''diabetic'' = Inr (h2, f2)"
    by (auto simp add: heatmap_cell_def conditions_def heatmap_step_def split: sum.splits)
  from s2 obtain m2 where a2: "assemble_matrix cs ''diabetic'' = Inr m2"
    and h2: "h2 = h1 @ [ArrayObj m2, FigureObj (render_heatmap m2 ''diabetic'')]"
    and f2: "f2 = Suc (length h1)"
    unfolding heap_plot_heatmap_refines [OF g1] by (auto split: sum.splits)
  have g2: "heap_get h2 a = Some (DictObj cs)"
    unfolding h2 using g1 by (rule heap_get_append)
  from assms s1 s2 obtain h3 f3 where s3: "heap_plot_heatmap h2 a ''hyper_metabolic'' = Inr (h3, f3)"
    and fin: "h' = h3" "figs = [f1, f2, f3]"
    by (auto simp add: heatmap_cell_def conditions_def heatmap_step_def split: sum.splits)
  from s3 obtain m3 where a3: "assemble_matrix cs ''hyper_metabolic'' = Inr m3"
    and h3: "h3 = h2 @ [ArrayObj m3, FigureObj (render_heatmap m3 ''hyper_metabolic'')]"
    and f3: "f3 = Suc (length h2)"
    unfolding heap_plot_heatmap_refines [OF g2] by (auto split: sum.splits)
  show ?thesis
    using g a1 a2 a3 fin h1 h2 h3 f1 f2 f3 by simp
qed

lemma heap_plot_trajectories_Inr:
  assumes "heap_plot_trajectories h c x N ind = Inr h'"
  shows "\<exists>cmp a a'. heap_get h c = Some (ComparisonObj cmp) \<and> heap_get h x = Some (AxesObj a) \<and>
           plot_trajectories cmp a N ind = Inr a' \<and> h' = h[x := AxesObj a']"
  using assms
  by (auto simp add: heap_plot_trajectories_def split: option.splits obj.splits sum.splits)

lemma pairs_grid: "distinct pairs \<and> length pairs = 9 \<and> set pairs = grid"
  by (auto simp add: pairs_def grid_def)

lemma py_indices_nonneg:
  assumes "py_indices n ind = Inr ks" and "list_all (\<lambda>k. 0 \<le> k) ind"
  shows "ks = map nat ind"
  using assms
proof (induction ind arbitrary: ks)
  case Nil
  then show ?case by simp
next
  case (Cons i ind)
  then show ?case
    by (auto simp add: py_index_def split: sum.splits if_splits)
qed

lemma draws_nonneg: "randint_draws 0 high N ind \<Longrightarrow> list_all (\<lambda>k. 0 \<le> k) ind"
  by (auto simp add: randint_draws_def list_all_iff)

lemma upt_2: "[0..<2] = [0, 1]"
  by (simp add: numeral_2_eq_2 upt_rec)

lemma heap_get_take:
  assumes "take (length h) h' = h" and "p < length h"
  shows "heap_get h' p = heap_get h p"
proof -
  have "length (take (length h) h') = length h" using assms(1) by simp
  then have "length h \<le> length h'" by simp
  moreover from assms have "h' ! p = h ! p"
    by (metis nth_take)
  ultimately show ?thesis using assms(2) by (simp add: heap_get_def)
qed

lemma heap_get_Some_less: "heap_get h p = Some ob \<Longrightarrow> p < length h"
  by (simp add: heap_get_def split: if_splits)

section \<open>Facts about the modelled package\<close>

lemma error_count_le: "error_count rule ref cmp \<le> shape0 (states cmp)"
proof -
  have "length (filter (rule ref cmp) [0..<shape0 (states cmp)]) \<le> length [0..<shape0 (states cmp)]"
    by (rule length_filter_le)
  then show ?thesis by (simp add: error_count_def)
qed

lemma error_frequency_bounds:
  assumes "error_frequency rule ref cmp = Some e"
  shows "0 \<le> e \<and> e \<le> 1"
proof -
  let ?n = "shape0 (states cmp)"
  from assms have n: "0 < ?n" and e: "e = of_nat (error_count rule ref cmp) / of_nat ?n"
    by (auto simp add: error_frequency_def split: if_splits)
  have "(of_nat (error_count rule ref cmp) :: rat) \<le> of_nat ?n"
    using error_count_le [of rule ref cmp] by (simp only: of_nat_le_iff)
  with n show ?thesis
    unfolding e by (simp add: divide_le_eq_1)
qed

lemma run_conditions_keys:
  "run_conditions sim rule model N conds = Some cs \<Longrightarrow>
     cs = map (\<lambda>c. (c, the (run_condition sim rule model N c))) conds \<and>
     (\<forall>c \<in> set conds. run_condition sim rule model N c \<noteq> None)"
proof (induction conds arbitrary: cs)
  case Nil
  then show ?case by simp
next
  case (Cons c conds)
  then show ?case by (auto split: option.splits)
qed

lemma run_conditions_total:
  "(\<forall>c \<in> set conds. run_condition sim rule model N c \<noteq> None) \<Longrightarrow>
     \<exists>cs. run_conditions sim rule model N conds = Some cs"
  by (induction conds) (auto split: option.splits)

lemma run_condition_Some:
  assumes "run_condition sim rule model N condition = Some c"
  shows "reference c = snd (sim model condition N) \<and>
         compared c = snd (sim (remove_perturbed model) condition N) \<and>
         t_points c = fst (sim model condition N) \<and>
         error_frequency rule (reference c) (compared c) = Some (threshold_error c)"
  using assms
  by (auto simp add: run_condition_def Let_def Comparison_init_def split: option.splits)

lemma run_condition_defined:
  "0 < shape0 (states (snd (sim (remove_perturbed model) condition N))) \<Longrightarrow>
     run_condition sim rule model N condition \<noteq> None"
  by (simp add: run_condition_def Let_def Comparison_init_def error_frequency_def)

lemma upt_4: "[0..<4] = [0, 1, 2, 3]"
  by (simp add: upt_rec)

lemma example_engine_nonempty:
  "0 < shape0 (states (snd (example_engine model condition 4)))"
  by (simp add: example_engine_def example_states_def)

lemma example_zero_entry:
  "dict_getitem (example_run 0) ''normal'' = Inr (example_comparison 2 3 0) \<and>
   threshold_error (example_comparison 2 3 0) = 0"
  by (simp add: example_run_def dict_getitem_def example_comparison_def)

lemma example_missing:
  "(0, 0) \<in> grid \<and> (0, 0) \<notin> fst ` set example_pairs \<and>
   (0 :: int) \<in> {0, 1, 2} \<and> 0 \<notin> fst ` set example_promoters"
  by (simp add: grid_def example_pairs_def example_promoters_def)

lemma heatmap_cell_total:
  assumes g: "heap_get h a = Some (DictObj cs)"
    and d: "distinct (map fst cs)" and s: "fst ` set cs \<subseteq> grid"
    and c: "\<forall>condition \<in> set conditions. has_condition condition cs"
  shows "\<exists>h3 figs. heatmap_cell h a = Inr (h3, figs)"
proof -
  from c have c1: "has_condition ''normal'' cs" and c2: "has_condition ''diabetic'' cs"
    and c3: "has_condition ''hyper_metabolic'' cs"
    by (simp_all add: conditions_def)
  note a1 = assemble_matrix_eq [OF d s c1]
  note a2 = assemble_matrix_eq [OF d s c2]
  note a3 = assemble_matrix_eq [OF d s c3]
  let ?h1 = "h @ [ArrayObj (heat_matrix cs ''normal''),
      FigureObj (render_heatmap (heat_matrix cs ''normal'') ''normal'')]"
  let ?h2 = "?h1 @ [ArrayObj (heat_matrix cs ''diabetic''),
      FigureObj (render_heatmap (heat_matrix cs ''diabetic'') ''diabetic'')]"
  have g1: "heap_get ?h1 a = Some (DictObj cs)" using g by (rule heap_get_append)
  have g2: "heap_get ?h2 a = Some (DictObj cs)" using g1 by (rule heap_get_append)
  have s1: "heap_plot_heatmap h a ''normal'' = Inr (?h1, Suc (length h))"
    by (simp add: heap_plot_heatmap_refines [OF g] a1)
  have s2: "heap_plot_heatmap ?h1 a ''diabetic'' = Inr (?h2, Suc (length ?h1))"
    by (simp only: heap_plot_heatmap_refines [OF g1] a2 sum.case)
  have s3: "\<exists>h3 f. heap_plot_heatmap ?h2 a ''hyper_metabolic'' = Inr (h3, f)"
    by (simp only: heap_plot_heatmap_refines [OF g2] a3 sum.case) blast
  then obtain h3 f where s3': "heap_plot_heatmap ?h2 a ''hyper_metabolic'' = Inr (h3, f)"
    by blast
  have "heatmap_cell h a = Inr (h3, [Suc (length h), Suc (length ?h1), f])"
    by (simp add: heatmap_cell_def conditions_def heatmap_step_def s1 s2 s3'
        del: append_assoc append.simps)
  then show ?thesis by blast
qed

lemma example_heap_dict:
  "heap_get example_heap 0 = Some (DictObj example_pairs) \<and>
   distinct (map fst example_pairs) \<and> fst ` set example_pairs \<subseteq> grid \<and>
   (\<forall>condition \<in> set conditions. has_condition condition example_pairs)"
  by (simp add: example_heap_def heap_get_def example_pairs_def example_run_def grid_def
      has_condition_def conditions_def)

lemma example_heap_trajectories:
  "\<exists>h'. heap_plot_trajectories example_heap 1 2 2 [1, 0] = Inr h'"
proof -
  let ?c = "example_comparison 2 3 0"
  have d: "randint_draws 0 (int (shape0 (states (reference ?c)))) 2 [1, 0]"
    by (simp add: randint_draws_def example_comparison_def example_states_def)
  have "\<exists>a'. plot_trajectories ?c new_axes 2 [1, 0] = Inr a'"
    using plot_trajectories_draw [OF _ _ _ _ _ d, of new_axes]
    by (simp add: example_comparison_def example_states_def)
  then obtain a' where "plot_trajectories ?c new_axes 2 [1, 0] = Inr a'" by blast
  then show ?thesis
    by (simp add: heap_plot_trajectories_def example_heap_def heap_get_def)
qed

lemma run_getitem:
  assumes run: "ConditionSimulation_run sim rule model M = Some cs"
    and get: "dict_getitem cs condition = Inr c"
  shows "run_condition sim rule model M condition = Some c"
proof -
  from run_conditions_keys [OF run [unfolded ConditionSimulation_run_def]]
  have cs: "cs = map (\<lambda>c. (c, the (run_condition sim rule model M c))) conditions"
    and def: "\<forall>c \<in> set conditions. run_condition sim rule model M c \<noteq> None"
    by simp_all
  from get have "map_of cs condition = Some c" by (simp add: dict_getitem_Inr)
  then have "(condition, c) \<in> set cs" by (rule map_of_SomeD)
  with cs have mem: "condition \<in> set conditions"
    and c_eq: "c = the (run_condition sim rule model M condition)" by auto
  with def show ?thesis by auto
qed





lemma plot_trajectories_Inr:
  assumes draw: "randint_draws 0 (int (shape0 (states (reference c)))) N ind"
    and run: "plot_trajectories c a N ind = Inr a'"
  shows "lines a' = lines a @
           map (\<lambda>k. \<lparr>xdata = t_points c,
                     ydata = map (item (states (reference c)) (nat k)
                                    (shape1 (states (reference c)) - 1))
                               [0..<shape2 (states (reference c))],
                     color = ''m'', lw = 1 / 2\<rparr>) ind @
           map (\<lambda>k. \<lparr>xdata = t_points c,
                     ydata = map (item (states (compared c)) (nat k)
                                    (shape1 (states (compared c)) - 1))
                               [0..<shape2 (states (compared c))],
                     color = ''grey'', lw = 1 / 2\<rparr>) ind"
proof -
  from run obtain ref_rows a1 cmp_rows a2 where
    r: "getitem_last (states (reference c)) ind = Inr ref_rows"
    and p1: "for_each (\<lambda>trajectory a. ax_plot a (t_points c) trajectory ''m'' (1 / 2))
               ref_rows a = Inr a1"
    and q: "getitem_last (states (compared c)) ind = Inr cmp_rows"
    and p2: "for_each (\<lambda>trajectory a. ax_plot a (t_points c) trajectory ''grey'' (1 / 2))
               cmp_rows a1 = Inr a2"
    and fin: "a' = a2\<lparr>ylabel := ''Protein level'', xlabel := ''Time (h)'',
                      xlim := Some (- 2, 50)\<rparr>"
    by (auto simp add: plot_trajectories_def Let_def split: if_splits sum.splits)
  note nn = draws_nonneg [OF draw]
  from getitem_last_Inr [OF r] obtain ks where
    ks: "py_indices (shape0 (states (reference c))) ind = Inr ks"
    and rr: "ref_rows = map (species_row (states (reference c))
                (shape1 (states (reference c)) - 1)) ks"
    by blast
  from ks nn have "ks = map nat ind" by (rule py_indices_nonneg)
  with rr have r': "ref_rows = map (\<lambda>k. species_row (states (reference c))
                (shape1 (states (reference c)) - 1) (nat k)) ind"
    by (simp add: comp_def)
  from getitem_last_Inr [OF q] obtain ks' where
    ks': "py_indices (shape0 (states (compared c))) ind = Inr ks'"
    and qq: "cmp_rows = map (species_row (states (compared c))
                (shape1 (states (compared c)) - 1)) ks'"
    by blast
  from ks' nn have "ks' = map nat ind" by (rule py_indices_nonneg)
  with qq have q': "cmp_rows = map (\<lambda>k. species_row (states (compared c))
                (shape1 (states (compared c)) - 1) (nat k)) ind"
    by (simp add: comp_def)
  have "lines a' = lines a @ map (plotted_line c ''m'') ref_rows @
      map (plotted_line c ''grey'') cmp_rows"
    unfolding fin for_each_ax_plot_Inr [OF p2] for_each_ax_plot_Inr [OF p1] by simp
  then show ?thesis
    by (simp add: r' q' plotted_line_def species_row_def comp_def)
qed

lemma example_run_normal:
  "\<exists>cs c. ConditionSimulation_run example_engine example_rule example_model 4 = Some cs \<and>
     dict_getitem cs ''normal'' = Inr c"
proof -
  have "\<forall>c \<in> set conditions. run_condition example_engine example_rule example_model 4 c \<noteq> None"
    by (simp add: run_condition_defined example_engine_nonempty)
  from run_conditions_total [OF this] obtain cs where
    cs: "ConditionSimulation_run example_engine example_rule example_model 4 = Some cs"
    by (auto simp add: ConditionSimulation_run_def)
  from run_conditions_keys [OF cs [unfolded ConditionSimulation_run_def]]
  have "map_of cs ''normal'' =
      Some (the (run_condition example_engine example_rule example_model 4 ''normal''))"
    by (simp add: conditions_def)
  then have "\<exists>c. dict_getitem cs ''normal'' = Inr c" by (simp add: dict_getitem_def)
  with cs show ?thesis by blast
qed

lemma example_engine_shapes:
  "fst (example_engine example_model condition 4) = [0, 1] \<and>
   shape0 (states (snd (example_engine example_model condition 4))) = 4 \<and>
   shape1 (states (snd (example_engine example_model condition 4))) = 2 \<and>
   shape2 (states (snd (example_engine example_model condition 4))) = 2 \<and>
   shape0 (states (snd (example_engine (remove_perturbed example_model) condition 4))) = 4 \<and>
   shape1 (states (snd (example_engine (remove_perturbed example_model) condition 4))) = 1 \<and>
   shape2 (states (snd (example_engine (remove_perturbed example_model) condition 4))) = 2"
  by (simp add: example_engine_def example_states_def example_model_def add_promoters_def
      LinearModel_init_def remove_perturbed_def)

section \<open>The claims\<close>

text \<open>
  Claim C1. For every completed comparison of a reference set with a compared set, the
  attribute \<open>threshold_error\<close> is the error frequency under the chosen threshold rule:
  the number of compared trajectories the rule counts as errors, relative to the reference
  set, divided by the number of compared trajectories. It is a proportion between 0 and 1.
  A comparison completes whenever the compared set holds a trajectory.
\<close>

theorem threshold_error_is_a_proportion:
  "(0 < shape0 (states cmp) \<longrightarrow> (\<exists>c. Comparison_init rule t ref cmp = Some c)) \<and>
   (\<forall>c. Comparison_init rule t ref cmp = Some c \<longrightarrow>
      reference c = ref \<and> compared c = cmp \<and>
      threshold_error c =
        of_nat (error_count rule ref cmp) / of_nat (shape0 (states cmp)) \<and>
      error_count rule ref cmp \<le> shape0 (states cmp) \<and>
      0 \<le> threshold_error c \<and> threshold_error c \<le> 1)"
proof (intro conjI allI impI)
  assume "0 < shape0 (states cmp)"
  then show "\<exists>c. Comparison_init rule t ref cmp = Some c"
    by (simp add: Comparison_init_def error_frequency_def)
next
  fix c assume c: "Comparison_init rule t ref cmp = Some c"
  then obtain e where e: "error_frequency rule ref cmp = Some e"
    and c_eq: "c = \<lparr>reference = ref, compared = cmp, t_points = t, threshold_error = e\<rparr>"
    by (auto simp add: Comparison_init_def split: option.splits)
  show "reference c = ref" "compared c = cmp" by (simp_all add: c_eq)
  show "threshold_error c = of_nat (error_count rule ref cmp) / of_nat (shape0 (states cmp))"
    using e by (auto simp add: c_eq error_frequency_def split: if_splits)
  show "error_count rule ref cmp \<le> shape0 (states cmp)" by (rule error_count_le)
  show "0 \<le> threshold_error c" "threshold_error c \<le> 1"
    using error_frequency_bounds [OF e] by (simp_all add: c_eq)
qed

theorem threshold_error_is_a_proportion_witness:
  "0 < shape0 (states \<lparr>states = example_states 4 3\<rparr>) \<and>
   (\<exists>c. Comparison_init example_rule [0, 1] \<lparr>states = example_states 4 3\<rparr>
          \<lparr>states = example_states 4 3\<rparr> = Some c \<and>
        threshold_error c = 1 / 4 \<and> 0 \<le> threshold_error c \<and> threshold_error c \<le> 1)"
proof -
  let ?s = "\<lparr>states = example_states 4 3\<rparr>"
  have pos: "0 < shape0 (states ?s)" by (simp add: example_states_def)
  note inst = threshold_error_is_a_proportion [of ?s example_rule "[0, 1]" ?s]
  from inst pos obtain c where c: "Comparison_init example_rule [0, 1] ?s ?s = Some c"
    by blast
  from inst c have te: "threshold_error c =
      of_nat (error_count example_rule ?s ?s) / of_nat (shape0 (states ?s))"
    and b: "0 \<le> threshold_error c" "threshold_error c \<le> 1"
    by blast+
  have "error_count example_rule ?s ?s = 1"
    by (simp add: error_count_def example_rule_def example_states_def upt_4)
  with te have "threshold_error c = 1 / 4" by (simp add: example_states_def)
  with c b have "\<exists>c. Comparison_init example_rule [0, 1] ?s ?s = Some c \<and>
        threshold_error c = 1 / 4 \<and> 0 \<le> threshold_error c \<and> threshold_error c \<le> 1"
    by (intro exI [of _ c] conjI)
  with pos show ?thesis by (rule conjI)
qed

text \<open>
  Claim C2. For every model, when \<open>ConditionSimulation.run\<close> completes, the keys of
  \<open>comparisons\<close> are exactly \<open>normal\<close>, \<open>diabetic\<close> and \<open>hyper_metabolic\<close>, once each,
  and each key maps to the comparison of the dynamics simulated under that condition. The
  run completes whenever the engine returns a trajectory under each condition.
\<close>

theorem run_is_keyed_by_the_three_conditions:
  "((\<forall>condition \<in> set conditions.
        0 < shape0 (states (snd (sim (remove_perturbed model) condition N)))) \<longrightarrow>
      (\<exists>cs. ConditionSimulation_run sim rule model N = Some cs)) \<and>
   (\<forall>cs. ConditionSimulation_run sim rule model N = Some cs \<longrightarrow>
      map fst cs = [''normal'', ''diabetic'', ''hyper_metabolic''] \<and>
      distinct (map fst cs) \<and>
      (\<forall>condition \<in> set (map fst cs).
         \<exists>c. dict_getitem cs condition = Inr c \<and>
             run_condition sim rule model N condition = Some c \<and>
             reference c = snd (sim model condition N) \<and>
             compared c = snd (sim (remove_perturbed model) condition N)))"
proof (intro conjI allI impI)
  assume "\<forall>condition \<in> set conditions.
        0 < shape0 (states (snd (sim (remove_perturbed model) condition N)))"
  then have "\<forall>c \<in> set conditions. run_condition sim rule model N c \<noteq> None"
    by (simp add: run_condition_defined)
  then show "\<exists>cs. ConditionSimulation_run sim rule model N = Some cs"
    unfolding ConditionSimulation_run_def by (rule run_conditions_total)
next
  fix cs assume run: "ConditionSimulation_run sim rule model N = Some cs"
  from run_conditions_keys [OF run [unfolded ConditionSimulation_run_def]]
  have cs: "cs = map (\<lambda>c. (c, the (run_condition sim rule model N c))) conditions"
    and def: "\<forall>c \<in> set conditions. run_condition sim rule model N c \<noteq> None"
    by simp_all
  show keys: "map fst cs = [''normal'', ''diabetic'', ''hyper_metabolic'']"
    by (simp add: cs conditions_def)
  show "distinct (map fst cs)" by (simp add: keys)
  show "\<forall>condition \<in> set (map fst cs).
         \<exists>c. dict_getitem cs condition = Inr c \<and>
             run_condition sim rule model N condition = Some c \<and>
             reference c = snd (sim model condition N) \<and>
             compared c = snd (sim (remove_perturbed model) condition N)"
  proof
    fix condition assume "condition \<in> set (map fst cs)"
    then have mem: "condition \<in> set conditions" by (simp add: keys conditions_def)
    with def obtain c where c: "run_condition sim rule model N condition = Some c" by auto
    have "map_of cs condition = Some c"
      using mem c unfolding cs conditions_def by auto
    then have "dict_getitem cs condition = Inr c" by (simp add: dict_getitem_def)
    with c run_condition_Some [OF c]
    show "\<exists>c. dict_getitem cs condition = Inr c \<and>
             run_condition sim rule model N condition = Some c \<and>
             reference c = snd (sim model condition N) \<and>
             compared c = snd (sim (remove_perturbed model) condition N)"
      by blast
  qed
qed

theorem run_is_keyed_by_the_three_conditions_witness:
  "\<exists>cs c. ConditionSimulation_run example_engine example_rule example_model 4 = Some cs \<and>
      map fst cs = [''normal'', ''diabetic'', ''hyper_metabolic''] \<and>
      dict_getitem cs ''diabetic'' = Inr c \<and>
      reference c = snd (example_engine example_model ''diabetic'' 4)"
proof -
  note inst = run_is_keyed_by_the_three_conditions [of example_engine example_model 4 example_rule]
  from inst example_engine_nonempty obtain cs where
    cs: "ConditionSimulation_run example_engine example_rule example_model 4 = Some cs"
    by blast
  from inst cs have keys: "map fst cs = [''normal'', ''diabetic'', ''hyper_metabolic'']"
    and vals: "\<forall>condition \<in> set (map fst cs).
         \<exists>c. dict_getitem cs condition = Inr c \<and>
             run_condition example_engine example_rule example_model 4 condition = Some c \<and>
             reference c = snd (example_engine example_model condition 4) \<and>
             compared c = snd (example_engine (remove_perturbed example_model) condition 4)"
    by blast+
  have "''diabetic'' \<in> set (map fst cs)" by (simp add: keys)
  with vals obtain c where "dict_getitem cs ''diabetic'' = Inr c"
    "reference c = snd (example_engine example_model ''diabetic'' 4)"
    by blast
  with cs keys show ?thesis by (intro exI [of _ cs] exI [of _ c] conjI)
qed

text \<open>
  Claim C3. An element added with \<open>perturbed=True\<close>, by \<open>add_promoters\<close> or by
  \<open>add_feedback\<close>, is absent from the model after removal, and an element added without
  it stays. In every comparison that \<open>ConditionSimulation.run\<close> produces, the reference
  holds the dynamics of the intact model, the compared series the dynamics of the model
  with the perturbed elements removed, and \<open>threshold_error\<close> is the error frequency of
  the second against the first.
\<close>

theorem comparison_is_before_and_after_removal:
  "remove_perturbed (add_promoters model eta (Some True)) = remove_perturbed model \<and>
   remove_perturbed (add_feedback model eta (Some True)) = remove_perturbed model \<and>
   elements (remove_perturbed (add_promoters model eta None)) =
     elements (remove_perturbed model) @ [\<lparr>kind = Promoter, strengths = eta, perturbed = False\<rparr>] \<and>
   elements (remove_perturbed (add_feedback model eta None)) =
     elements (remove_perturbed model) @ [\<lparr>kind = Repressor, strengths = eta, perturbed = False\<rparr>] \<and>
   (\<forall>cs condition c.
      ConditionSimulation_run sim rule model N = Some cs \<and> (condition, c) \<in> set cs \<longrightarrow>
        reference c = snd (sim model condition N) \<and>
        compared c = snd (sim (remove_perturbed model) condition N) \<and>
        elements (remove_perturbed model) = filter (\<lambda>e. \<not> perturbed e) (elements model) \<and>
        threshold_error c =
          of_nat (error_count rule (reference c) (compared c)) /
          of_nat (shape0 (states (compared c))))"
proof (intro conjI allI impI)
  show "remove_perturbed (add_promoters model eta (Some True)) = remove_perturbed model"
    by (simp add: remove_perturbed_def add_promoters_def)
  show "remove_perturbed (add_feedback model eta (Some True)) = remove_perturbed model"
    by (simp add: remove_perturbed_def add_feedback_def)
  show "elements (remove_perturbed (add_promoters model eta None)) =
     elements (remove_perturbed model) @ [\<lparr>kind = Promoter, strengths = eta, perturbed = False\<rparr>]"
    by (simp add: remove_perturbed_def add_promoters_def)
  show "elements (remove_perturbed (add_feedback model eta None)) =
     elements (remove_perturbed model) @ [\<lparr>kind = Repressor, strengths = eta, perturbed = False\<rparr>]"
    by (simp add: remove_perturbed_def add_feedback_def)
next
  fix cs condition c
  assume a: "ConditionSimulation_run sim rule model N = Some cs \<and> (condition, c) \<in> set cs"
  from run_conditions_keys [of sim rule model N conditions cs] a
  have cs: "cs = map (\<lambda>c. (c, the (run_condition sim rule model N c))) conditions"
    and def: "\<forall>c \<in> set conditions. run_condition sim rule model N c \<noteq> None"
    by (simp_all add: ConditionSimulation_run_def)
  from a cs have mem: "condition \<in> set conditions"
    and c_eq: "c = the (run_condition sim rule model N condition)" by auto
  with def have c: "run_condition sim rule model N condition = Some c" by auto
  note facts = run_condition_Some [OF c]
  show "reference c = snd (sim model condition N)" using facts by simp
  show "compared c = snd (sim (remove_perturbed model) condition N)" using facts by simp
  show "elements (remove_perturbed model) = filter (\<lambda>e. \<not> perturbed e) (elements model)"
    by (simp add: remove_perturbed_def)
  from facts have "error_frequency rule (reference c) (compared c) = Some (threshold_error c)"
    by (elim conjE)
  then show "threshold_error c =
          of_nat (error_count rule (reference c) (compared c)) /
          of_nat (shape0 (states (compared c)))"
    by (auto simp add: error_frequency_def split: if_splits)
qed

theorem comparison_is_before_and_after_removal_witness:
  "\<exists>cs c. ConditionSimulation_run example_engine example_rule example_model 4 = Some cs \<and>
      (''normal'', c) \<in> set cs \<and>
      elements (remove_perturbed example_model) = [] \<and>
      shape1 (states (reference c)) = 2 \<and> shape1 (states (compared c)) = 1 \<and>
      threshold_error c = 1 / 4"
proof -
  have "\<forall>c \<in> set conditions. run_condition example_engine example_rule example_model 4 c \<noteq> None"
    by (simp add: run_condition_defined example_engine_nonempty)
  from run_conditions_total [OF this] obtain cs where
    cs: "ConditionSimulation_run example_engine example_rule example_model 4 = Some cs"
    by (auto simp add: ConditionSimulation_run_def)
  from run_conditions_keys [OF cs [unfolded ConditionSimulation_run_def]]
  have "(''normal'', the (run_condition example_engine example_rule example_model 4 ''normal''))
      \<in> set cs"
    by (simp add: conditions_def)
  then obtain c where mem: "(''normal'', c) \<in> set cs" by blast
  note inst = comparison_is_before_and_after_removal
    [of example_model "[]" example_engine example_rule 4]
  from inst cs mem have r: "reference c = snd (example_engine example_model ''normal'' 4)"
    and q: "compared c = snd (example_engine (remove_perturbed example_model) ''normal'' 4)"
    and te: "threshold_error c =
          of_nat (error_count example_rule (reference c) (compared c)) /
          of_nat (shape0 (states (compared c)))"
    by blast+
  have el: "elements (remove_perturbed example_model) = []"
    by (simp add: example_model_def remove_perturbed_def add_promoters_def LinearModel_init_def)
  have s1: "shape1 (states (reference c)) = 2"
    by (simp add: r example_engine_def example_states_def example_model_def add_promoters_def
        LinearModel_init_def)
  have s2: "shape1 (states (compared c)) = 1"
    by (simp add: q el example_engine_def example_states_def)
  have "error_count example_rule (reference c) (compared c) = 1"
    by (simp add: q error_count_def example_rule_def example_engine_def example_states_def upt_4)
  with te have "threshold_error c = 1 / 4"
    by (simp add: q example_engine_def example_states_def)
  with cs mem el s1 s2 show ?thesis by (intro exI [of _ cs] exI [of _ c] conjI)
qed

text \<open>
  Claim C4. With \<open>eta\<close> holding three strengths, the repressor sweep completes, builds
  one model and runs one simulation for each ordered pair \<open>(i, j)\<close> of \<open>{0, 1, 2}\<close>, nine
  in all, and keys \<open>comparisons\<close> by exactly these pairs. The model of \<open>(i, j)\<close> gets the
  permanent feedback vector that is \<open>eta[i]\<close> at position \<open>i\<close> and 0 elsewhere, and the
  perturbed feedback vector that is \<open>eta[j]\<close> at position \<open>j\<close> and 0 elsewhere. The
  promoter sweep builds one model and one entry for each \<open>i\<close> of \<open>{0, 1, 2}\<close>.
\<close>

theorem sweeps_visit_each_position_once:
  "3 \<le> length eta \<longrightarrow>
     (\<exists>st. repressor_sweep pkg eta N = Inr st \<and>
        map fst (sw_comparisons st) = pairs \<and>
        sw_comparisons st = map (\<lambda>ij. (ij, pkg_run pkg (repressor_model pkg eta ij) N)) pairs \<and>
        sw_models st = map (repressor_model pkg eta) pairs \<and>
        sw_simulations st = map (\<lambda>ij. (repressor_model pkg eta ij, N)) pairs) \<and>
     distinct pairs \<and> length pairs = 9 \<and> set pairs = {0, 1, 2} \<times> {0, 1, 2} \<and>
     (\<exists>st. promoter_sweep pkg eta N = Inr st \<and>
        map fst (sw_comparisons st) = [0, 1, 2] \<and>
        sw_comparisons st = map (\<lambda>i. (i, pkg_run pkg (promoter_model pkg eta i) N)) [0, 1, 2] \<and>
        sw_models st = map (promoter_model pkg eta) [0, 1, 2] \<and>
        sw_simulations st = map (\<lambda>i. (promoter_model pkg eta i, N)) [0, 1, 2]) \<and>
     (\<forall>i \<in> {0, 1, 2}.
        define_strengths eta i = Inr (unit_strengths eta i) \<and>
        length (unit_strengths eta i) = 3 \<and>
        (\<forall>k<3. unit_strengths eta i ! k = (if int k = i then eta ! k else 0)))"
proof (intro impI conjI ballI allI)
  assume len: "3 \<le> length eta"
  show "\<exists>st. repressor_sweep pkg eta N = Inr st \<and>
        map fst (sw_comparisons st) = pairs \<and>
        sw_comparisons st = map (\<lambda>ij. (ij, pkg_run pkg (repressor_model pkg eta ij) N)) pairs \<and>
        sw_models st = map (repressor_model pkg eta) pairs \<and>
        sw_simulations st = map (\<lambda>ij. (repressor_model pkg eta ij, N)) pairs"
    unfolding repressor_sweep_eq [OF len] by (simp add: comp_def)
  show "\<exists>st. promoter_sweep pkg eta N = Inr st \<and>
        map fst (sw_comparisons st) = [0, 1, 2] \<and>
        sw_comparisons st = map (\<lambda>i. (i, pkg_run pkg (promoter_model pkg eta i) N)) [0, 1, 2] \<and>
        sw_models st = map (promoter_model pkg eta) [0, 1, 2] \<and>
        sw_simulations st = map (\<lambda>i. (promoter_model pkg eta i, N)) [0, 1, 2]"
    unfolding promoter_sweep_eq [OF len] by (simp add: py_range_3)
  show "distinct pairs" "length pairs = 9" "set pairs = {0, 1, 2} \<times> {0, 1, 2}"
    using pairs_grid by (simp_all add: grid_def)
next
  fix i :: int assume len: "3 \<le> length eta" and i: "i \<in> {0, 1, 2}"
  show "define_strengths eta i = Inr (unit_strengths eta i)"
    using len i by (rule define_strengths_unit)
  show "length (unit_strengths eta i) = 3"
    by (simp only: unit_strengths_def length_list_update) simp
next
  fix i :: int and k :: nat
  assume "3 \<le> length eta" and i: "i \<in> {0, 1, 2}" and k: "k < 3"
  show "unit_strengths eta i ! k = (if int k = i then eta ! k else 0)"
    using i k by (rule unit_strengths_nth(2))
qed

theorem sweeps_visit_each_position_once_witness:
  "3 \<le> length repressor_eta \<and>
   (\<exists>st. repressor_sweep example_package repressor_eta 5000 = Inr st \<and>
      map fst (sw_comparisons st) = pairs \<and> length (sw_models st) = 9) \<and>
   (\<exists>st. promoter_sweep example_package promoter_eta 50 = Inr st \<and>
      map fst (sw_comparisons st) = [0, 1, 2] \<and> length (sw_models st) = 3) \<and>
   define_strengths repressor_eta 1 = Inr [0, 1 / 10000, 0]"
proof -
  have len: "3 \<le> length repressor_eta" "3 \<le> length promoter_eta"
    by (simp_all add: repressor_eta_def promoter_eta_def)
  have u: "unit_strengths repressor_eta 1 = [0, 1 / 10000, 0]"
    by (simp add: unit_strengths_def repressor_eta_def)
  have one: "(1 :: int) \<in> {0, 1, 2}" by simp
  from sweeps_visit_each_position_once [of repressor_eta example_package 5000] len(1)
  have big: "(\<exists>st. repressor_sweep example_package repressor_eta 5000 = Inr st \<and>
        map fst (sw_comparisons st) = pairs \<and>
        sw_comparisons st =
          map (\<lambda>ij. (ij, pkg_run example_package
                 (repressor_model example_package repressor_eta ij) 5000)) pairs \<and>
        sw_models st = map (repressor_model example_package repressor_eta) pairs \<and>
        sw_simulations st =
          map (\<lambda>ij. (repressor_model example_package repressor_eta ij, 5000)) pairs) \<and>
     distinct pairs \<and> length pairs = 9 \<and> set pairs = {0, 1, 2} \<times> {0, 1, 2} \<and>
     (\<exists>st. promoter_sweep example_package repressor_eta 5000 = Inr st \<and>
        map fst (sw_comparisons st) = [0, 1, 2] \<and>
        sw_comparisons st =
          map (\<lambda>i. (i, pkg_run example_package
                 (promoter_model example_package repressor_eta i) 5000)) [0, 1, 2] \<and>
        sw_models st = map (promoter_model example_package repressor_eta) [0, 1, 2] \<and>
        sw_simulations st =
          map (\<lambda>i. (promoter_model example_package repressor_eta i, 5000)) [0, 1, 2]) \<and>
     (\<forall>i \<in> {0, 1, 2}.
        define_strengths repressor_eta i = Inr (unit_strengths repressor_eta i) \<and>
        length (unit_strengths repressor_eta i) = 3 \<and>
        (\<forall>k<3. unit_strengths repressor_eta i ! k =
           (if int k = i then repressor_eta ! k else 0)))"
    by (rule mp)
  then obtain st where st: "repressor_sweep example_package repressor_eta 5000 = Inr st"
    "map fst (sw_comparisons st) = pairs"
    "sw_models st = map (repressor_model example_package repressor_eta) pairs"
    by (elim conjE exE)
  from big have "\<forall>i \<in> {0, 1, 2}.
        define_strengths repressor_eta i = Inr (unit_strengths repressor_eta i) \<and>
        length (unit_strengths repressor_eta i) = 3 \<and>
        (\<forall>k<3. unit_strengths repressor_eta i ! k =
           (if int k = i then repressor_eta ! k else 0))"
    by (elim conjE)
  from bspec [OF this one]
  have d: "define_strengths repressor_eta 1 = Inr [0, 1 / 10000, 0]"
    unfolding u by (elim conjE)
  have "length (sw_models st) = 9"
    unfolding st(3) by (simp add: pairs_def)
  with st have r: "\<exists>st. repressor_sweep example_package repressor_eta 5000 = Inr st \<and>
      map fst (sw_comparisons st) = pairs \<and> length (sw_models st) = 9"
    by (intro exI [of _ st] conjI)
  have p: "\<exists>st. promoter_sweep example_package promoter_eta 50 = Inr st \<and>
      map fst (sw_comparisons st) = [0, 1, 2] \<and> length (sw_models st) = 3"
    unfolding promoter_sweep_eq [OF len(2)] by (simp add: py_range_3)
  from len(1) r p d show ?thesis
    by (intro conjI)
qed

text \<open>
  Claim C5. For a mapping keyed by pairs of \<open>{0, 1, 2}\<close> whose entries hold the
  condition, \<open>plot_heatmap\<close> assembles a 3x3 matrix that is \<open>threshold_error\<close> of
  \<open>comparisons[(i, j)][condition]\<close> at \<open>(i, j)\<close> for every key present and 0 elsewhere,
  and shows the transpose of the matrix with the colour range from 0 to 1. The promoter
  variant fills row \<open>i\<close> of a 3x1 matrix in the same way and shows the matrix itself.
\<close>

theorem plot_heatmap_matrix:
  "(distinct (map fst comparisons) \<and> fst ` set comparisons \<subseteq> grid \<and>
      has_condition condition comparisons \<longrightarrow>
    (\<exists>matrix fig.
        assemble_matrix comparisons condition = Inr matrix \<and>
        length matrix = 3 \<and> (\<forall>i<3. length (matrix ! i) = 3) \<and>
        (\<forall>i<3. \<forall>j<3.
           case map_of comparisons (int i, int j) of None \<Rightarrow> matrix ! i ! j = 0
           | Some comparison \<Rightarrow>
               \<exists>c. dict_getitem comparison condition = Inr c \<and>
                   matrix ! i ! j = threshold_error c) \<and>
        plot_heatmap comparisons condition = Inr fig \<and>
        images (ax fig) =
          [\<lparr>data = transpose matrix, cmap = ''copper_r'', vmin = 0, vmax = 1\<rparr>] \<and>
        length (transpose matrix) = 3 \<and>
        (\<forall>i<3. \<forall>j<3. transpose matrix ! j ! i = matrix ! i ! j))) \<and>
   (distinct (map fst promoters) \<and> fst ` set promoters \<subseteq> {0, 1, 2} \<and>
      has_condition condition promoters \<longrightarrow>
    (\<exists>matrix fig.
        assemble_column promoters condition = Inr matrix \<and>
        length matrix = 3 \<and>
        (\<forall>i<3.
           case map_of promoters (int i) of None \<Rightarrow> matrix ! i = [0]
           | Some comparison \<Rightarrow>
               \<exists>c. dict_getitem comparison condition = Inr c \<and>
                   matrix ! i = [threshold_error c]) \<and>
        plot_heatmap_promoters promoters condition = Inr fig \<and>
        images (ax fig) =
          [\<lparr>data = matrix, cmap = ''copper_r'', vmin = 0, vmax = 1\<rparr>]))"
proof (intro conjI impI)
  assume a: "distinct (map fst comparisons) \<and> fst ` set comparisons \<subseteq> grid \<and>
      has_condition condition comparisons"
  let ?m = "heat_matrix comparisons condition"
  have asm: "assemble_matrix comparisons condition = Inr ?m"
    using a by (simp add: assemble_matrix_eq)
  have hc: "has_condition condition comparisons" using a by simp
  have cells: "\<forall>i<3. \<forall>j<3.
           case map_of comparisons (int i, int j) of None \<Rightarrow> ?m ! i ! j = 0
           | Some comparison \<Rightarrow>
               \<exists>c. dict_getitem comparison condition = Inr c \<and> ?m ! i ! j = threshold_error c"
  proof (intro allI impI)
    fix i j :: nat assume "i < 3" "j < 3"
    then have "?m ! i ! j = cell_value comparisons condition (int i, int j)"
      by (simp add: heat_matrix_def)
    with cell_value_cases [OF hc, of "(int i, int j)"]
    show "case map_of comparisons (int i, int j) of None \<Rightarrow> ?m ! i ! j = 0
           | Some comparison \<Rightarrow>
               \<exists>c. dict_getitem comparison condition = Inr c \<and> ?m ! i ! j = threshold_error c"
      by (auto split: option.splits)
  qed
  have shape: "length ?m = 3" "\<forall>i<3. length (?m ! i) = 3"
    by (simp_all add: heat_matrix_def)
  have fig: "plot_heatmap comparisons condition = Inr (render_heatmap ?m condition)"
    using asm by (simp add: plot_heatmap_def)
  have tr: "transpose ?m = map (\<lambda>b. map (\<lambda>a. ?m ! a ! b) [0..<3]) [0..<3]"
    by (rule transpose_3x3 [OF is_3x3_heat_matrix])
  have trl: "length (transpose ?m) = 3" by (simp add: tr)
  have trc: "\<forall>i<3. \<forall>j<3. transpose ?m ! j ! i = ?m ! i ! j" by (simp add: tr)
  show "\<exists>matrix fig.
        assemble_matrix comparisons condition = Inr matrix \<and>
        length matrix = 3 \<and> (\<forall>i<3. length (matrix ! i) = 3) \<and>
        (\<forall>i<3. \<forall>j<3.
           case map_of comparisons (int i, int j) of None \<Rightarrow> matrix ! i ! j = 0
           | Some comparison \<Rightarrow>
               \<exists>c. dict_getitem comparison condition = Inr c \<and>
                   matrix ! i ! j = threshold_error c) \<and>
        plot_heatmap comparisons condition = Inr fig \<and>
        images (ax fig) =
          [\<lparr>data = transpose matrix, cmap = ''copper_r'', vmin = 0, vmax = 1\<rparr>] \<and>
        length (transpose matrix) = 3 \<and>
        (\<forall>i<3. \<forall>j<3. transpose matrix ! j ! i = matrix ! i ! j)"
    using asm shape cells fig images_render_heatmap [of ?m condition] trl trc by blast
next
  assume a: "distinct (map fst promoters) \<and> fst ` set promoters \<subseteq> {0, 1, 2} \<and>
      has_condition condition promoters"
  let ?m = "heat_column promoters condition"
  have asm: "assemble_column promoters condition = Inr ?m"
    using a by (simp add: assemble_column_eq)
  have hc: "has_condition condition promoters" using a by simp
  have cells: "\<forall>i<3.
           case map_of promoters (int i) of None \<Rightarrow> ?m ! i = [0]
           | Some comparison \<Rightarrow>
               \<exists>c. dict_getitem comparison condition = Inr c \<and> ?m ! i = [threshold_error c]"
  proof (intro allI impI)
    fix i :: nat assume "i < 3"
    then have "?m ! i = [cell_value promoters condition (int i)]"
      by (simp add: heat_column_def)
    with cell_value_cases [OF hc, of "int i"]
    show "case map_of promoters (int i) of None \<Rightarrow> ?m ! i = [0]
           | Some comparison \<Rightarrow>
               \<exists>c. dict_getitem comparison condition = Inr c \<and> ?m ! i = [threshold_error c]"
      by (auto split: option.splits)
  qed
  have shape: "length ?m = 3"
    by (simp add: heat_column_def)
  have fig: "plot_heatmap_promoters promoters condition = Inr (render_column ?m condition)"
    using asm by (simp add: plot_heatmap_promoters_def)
  show "\<exists>matrix fig.
        assemble_column promoters condition = Inr matrix \<and>
        length matrix = 3 \<and>
        (\<forall>i<3.
           case map_of promoters (int i) of None \<Rightarrow> matrix ! i = [0]
           | Some comparison \<Rightarrow>
               \<exists>c. dict_getitem comparison condition = Inr c \<and>
                   matrix ! i = [threshold_error c]) \<and>
        plot_heatmap_promoters promoters condition = Inr fig \<and>
        images (ax fig) =
          [\<lparr>data = matrix, cmap = ''copper_r'', vmin = 0, vmax = 1\<rparr>]"
    using asm shape cells fig images_render_column [of ?m condition] by blast
qed

theorem plot_heatmap_matrix_witness:
  "(distinct (map fst example_pairs) \<and> fst ` set example_pairs \<subseteq> grid \<and>
      has_condition ''normal'' example_pairs) \<and>
   (distinct (map fst example_promoters) \<and> fst ` set example_promoters \<subseteq> {0, 1, 2} \<and>
      has_condition ''normal'' example_promoters) \<and>
   (\<exists>matrix fig.
      assemble_matrix example_pairs ''normal'' = Inr matrix \<and>
      matrix ! 0 ! 1 = 1 / 4 \<and> matrix ! 1 ! 1 = 0 \<and>
      plot_heatmap example_pairs ''normal'' = Inr fig \<and>
      images (ax fig) = [\<lparr>data = transpose matrix, cmap = ''copper_r'', vmin = 0, vmax = 1\<rparr>] \<and>
      transpose matrix ! 1 ! 0 = 1 / 4) \<and>
   (\<exists>matrix fig.
      assemble_column example_promoters ''normal'' = Inr matrix \<and>
      matrix ! 1 = [3 / 4] \<and> matrix ! 2 = [0] \<and>
      plot_heatmap_promoters example_promoters ''normal'' = Inr fig)"
proof -
  note inst = plot_heatmap_matrix [of example_pairs "''normal''" example_promoters]
  from inst [THEN conjunct1, THEN mp, OF example_pairs_ok] obtain matrix fig where
    m: "assemble_matrix example_pairs ''normal'' = Inr matrix"
    and cells: "\<forall>i<3. \<forall>j<3.
           case map_of example_pairs (int i, int j) of None \<Rightarrow> matrix ! i ! j = 0
           | Some comparison \<Rightarrow>
               \<exists>c. dict_getitem comparison ''normal'' = Inr c \<and>
                   matrix ! i ! j = threshold_error c"
    and f: "plot_heatmap example_pairs ''normal'' = Inr fig"
    and im: "images (ax fig) =
        [\<lparr>data = transpose matrix, cmap = ''copper_r'', vmin = 0, vmax = 1\<rparr>]"
    and tr: "\<forall>i<3. \<forall>j<3. transpose matrix ! j ! i = matrix ! i ! j"
    by (elim exE conjE)
  from cells [THEN spec, of 0, THEN mp, THEN spec, of 1, THEN mp]
  have c01: "matrix ! 0 ! 1 = 1 / 4"
    by (simp add: example_pairs_def example_run_def dict_getitem_def example_comparison_def)
  from cells [THEN spec, of 1, THEN mp, THEN spec, of 1, THEN mp]
  have c11: "matrix ! 1 ! 1 = 0"
    by (simp add: example_pairs_def)
  from tr [THEN spec, of 0, THEN mp, THEN spec, of 1, THEN mp] c01
  have t10: "transpose matrix ! 1 ! 0 = 1 / 4" by simp
  from inst [THEN conjunct2, THEN mp, OF example_promoters_ok] obtain column fig' where
    m': "assemble_column example_promoters ''normal'' = Inr column"
    and cells': "\<forall>i<3.
           case map_of example_promoters (int i) of None \<Rightarrow> column ! i = [0]
           | Some comparison \<Rightarrow>
               \<exists>c. dict_getitem comparison ''normal'' = Inr c \<and>
                   column ! i = [threshold_error c]"
    and f': "plot_heatmap_promoters example_promoters ''normal'' = Inr fig'"
    by (elim exE conjE)
  from cells' [THEN spec, of 1, THEN mp]
  have r1: "column ! 1 = [3 / 4]"
    by (simp add: example_promoters_def example_run_def dict_getitem_def example_comparison_def)
  from cells' [THEN spec, of 2, THEN mp]
  have r2: "column ! 2 = [0]"
    by (simp add: example_promoters_def)
  have A: "\<exists>matrix fig.
      assemble_matrix example_pairs ''normal'' = Inr matrix \<and>
      matrix ! 0 ! 1 = 1 / 4 \<and> matrix ! 1 ! 1 = 0 \<and>
      plot_heatmap example_pairs ''normal'' = Inr fig \<and>
      images (ax fig) = [\<lparr>data = transpose matrix, cmap = ''copper_r'', vmin = 0, vmax = 1\<rparr>] \<and>
      transpose matrix ! 1 ! 0 = 1 / 4"
    using m c01 c11 f im t10 by (intro exI [of _ matrix] exI [of _ fig] conjI)
  have B: "\<exists>matrix fig.
      assemble_column example_promoters ''normal'' = Inr matrix \<and>
      matrix ! 1 = [3 / 4] \<and> matrix ! 2 = [0] \<and>
      plot_heatmap_promoters example_promoters ''normal'' = Inr fig"
    using m' r1 r2 f' by (intro exI [of _ column] exI [of _ fig'] conjI)
  show ?thesis
    by (rule conjI [OF example_pairs_ok conjI [OF example_promoters_ok conjI [OF A B]]])
qed

text \<open>
  Claim C7. What \<open>plot_trajectories\<close> plots are rows of the state arrays of the
  comparison as they are stored: for each sampled index \<open>k\<close>, the time course of the last
  species of trajectory \<open>k\<close> of \<open>comparison.reference.states\<close>, then the same of
  \<open>comparison.compared.states\<close>, each against \<open>comparison.t\<close>, with no arithmetic on
  the values. For a comparison read from the \<open>comparisons\<close> of a completed
  \<open>ConditionSimulation.run\<close>, these are rows of the arrays the external engine returned
  under that condition: of its run on the intact model for the reference lines, of its run
  on the model without the perturbed elements for the compared lines, against the time
  axis the engine reported.
\<close>

theorem plotted_trajectories_are_the_stored_rows:
  "(randint_draws 0 (int (shape0 (states (reference c)))) N ind \<and>
      plot_trajectories c a N ind = Inr a' \<longrightarrow>
    lines a' = lines a @
      map (\<lambda>k. \<lparr>xdata = t_points c,
                ydata = map (item (states (reference c)) (nat k)
                               (shape1 (states (reference c)) - 1))
                          [0..<shape2 (states (reference c))],
                color = ''m'', lw = 1 / 2\<rparr>) ind @
      map (\<lambda>k. \<lparr>xdata = t_points c,
                ydata = map (item (states (compared c)) (nat k)
                               (shape1 (states (compared c)) - 1))
                          [0..<shape2 (states (compared c))],
                color = ''grey'', lw = 1 / 2\<rparr>) ind) \<and>
   (ConditionSimulation_run sim rule model M = Some cs \<and>
      dict_getitem cs condition = Inr c \<and>
      randint_draws 0 (int (shape0 (states (snd (sim model condition M))))) N ind \<and>
      plot_trajectories c a N ind = Inr a' \<longrightarrow>
    reference c = snd (sim model condition M) \<and>
    compared c = snd (sim (remove_perturbed model) condition M) \<and>
    t_points c = fst (sim model condition M) \<and>
    lines a' = lines a @
      map (\<lambda>k. \<lparr>xdata = fst (sim model condition M),
                ydata = map (item (states (snd (sim model condition M))) (nat k)
                               (shape1 (states (snd (sim model condition M))) - 1))
                          [0..<shape2 (states (snd (sim model condition M)))],
                color = ''m'', lw = 1 / 2\<rparr>) ind @
      map (\<lambda>k. \<lparr>xdata = fst (sim model condition M),
                ydata =
                  map (item (states (snd (sim (remove_perturbed model) condition M))) (nat k)
                         (shape1 (states (snd (sim (remove_perturbed model) condition M))) - 1))
                    [0..<shape2 (states (snd (sim (remove_perturbed model) condition M)))],
                color = ''grey'', lw = 1 / 2\<rparr>) ind)"
proof (intro conjI impI)
  assume "randint_draws 0 (int (shape0 (states (reference c)))) N ind \<and>
      plot_trajectories c a N ind = Inr a'"
  then have d: "randint_draws 0 (int (shape0 (states (reference c)))) N ind"
    and p: "plot_trajectories c a N ind = Inr a'"
    by simp_all
  from d p show "lines a' = lines a @
      map (\<lambda>k. \<lparr>xdata = t_points c,
                ydata = map (item (states (reference c)) (nat k)
                               (shape1 (states (reference c)) - 1))
                          [0..<shape2 (states (reference c))],
                color = ''m'', lw = 1 / 2\<rparr>) ind @
      map (\<lambda>k. \<lparr>xdata = t_points c,
                ydata = map (item (states (compared c)) (nat k)
                               (shape1 (states (compared c)) - 1))
                          [0..<shape2 (states (compared c))],
                color = ''grey'', lw = 1 / 2\<rparr>) ind"
    by (rule plot_trajectories_Inr)
next
  assume a: "ConditionSimulation_run sim rule model M = Some cs \<and>
      dict_getitem cs condition = Inr c \<and>
      randint_draws 0 (int (shape0 (states (snd (sim model condition M))))) N ind \<and>
      plot_trajectories c a N ind = Inr a'"
  then have run: "ConditionSimulation_run sim rule model M = Some cs"
    and get: "dict_getitem cs condition = Inr c"
    and d: "randint_draws 0 (int (shape0 (states (snd (sim model condition M))))) N ind"
    and p: "plot_trajectories c a N ind = Inr a'"
    by simp_all
  note facts = run_condition_Some [OF run_getitem [OF run get]]
  from facts show r: "reference c = snd (sim model condition M)" by (elim conjE)
  from facts show q: "compared c = snd (sim (remove_perturbed model) condition M)"
    by (elim conjE)
  from facts show t: "t_points c = fst (sim model condition M)" by (elim conjE)
  from d have d': "randint_draws 0 (int (shape0 (states (reference c)))) N ind"
    by (simp only: r)
  show "lines a' = lines a @
      map (\<lambda>k. \<lparr>xdata = fst (sim model condition M),
                ydata = map (item (states (snd (sim model condition M))) (nat k)
                               (shape1 (states (snd (sim model condition M))) - 1))
                          [0..<shape2 (states (snd (sim model condition M)))],
                color = ''m'', lw = 1 / 2\<rparr>) ind @
      map (\<lambda>k. \<lparr>xdata = fst (sim model condition M),
                ydata =
                  map (item (states (snd (sim (remove_perturbed model) condition M))) (nat k)
                         (shape1 (states (snd (sim (remove_perturbed model) condition M))) - 1))
                    [0..<shape2 (states (snd (sim (remove_perturbed model) condition M)))],
                color = ''grey'', lw = 1 / 2\<rparr>) ind"
    using plot_trajectories_Inr [OF d' p] by (simp only: r q t)
qed

theorem plotted_trajectories_are_the_stored_rows_witness:
  "\<exists>cs c a'.
     ConditionSimulation_run example_engine example_rule example_model 4 = Some cs \<and>
     dict_getitem cs ''normal'' = Inr c \<and>
     randint_draws 0
       (int (shape0 (states (snd (example_engine example_model ''normal'' 4))))) 2 [3, 0] \<and>
     plot_trajectories c new_axes 2 [3, 0] = Inr a' \<and>
     map ydata (lines a') = [[4, 5], [1, 2], [3, 4], [0, 1]] \<and>
     map color (lines a') = [''m'', ''m'', ''grey'', ''grey'']"
proof -
  from example_run_normal obtain cs c where
    run: "ConditionSimulation_run example_engine example_rule example_model 4 = Some cs"
    and get: "dict_getitem cs ''normal'' = Inr c"
    by (elim exE conjE)
  note facts = run_condition_Some [OF run_getitem [OF run get]]
  from facts have r: "reference c = snd (example_engine example_model ''normal'' 4)"
    and q: "compared c = snd (example_engine (remove_perturbed example_model) ''normal'' 4)"
    and t: "t_points c = fst (example_engine example_model ''normal'' 4)"
    by simp_all
  note sh = example_engine_shapes [of "''normal''"]
  have d: "randint_draws 0
      (int (shape0 (states (snd (example_engine example_model ''normal'' 4))))) 2 [3, 0]"
    using sh by (simp add: randint_draws_def)
  have d': "randint_draws 0 (int (shape0 (states (reference c)))) 2 [3, 0]"
    using d by (simp only: r)
  have "\<exists>a'. plot_trajectories c new_axes 2 [3, 0] = Inr a'"
    using plot_trajectories_draw [OF _ _ _ _ _ d', of new_axes] sh
    by (simp add: r q t)
  then obtain a' where p: "plot_trajectories c new_axes 2 [3, 0] = Inr a'" by (elim exE)
  note inst = plotted_trajectories_are_the_stored_rows
    [where c = c and N = 2 and ind = "[3, 0]" and a = new_axes and a' = a'
      and sim = example_engine and rule = example_rule and model = example_model
      and M = 4 and cs = cs and condition = "''normal''"]
  have h: "ConditionSimulation_run example_engine example_rule example_model 4 = Some cs \<and>
      dict_getitem cs ''normal'' = Inr c \<and>
      randint_draws 0
        (int (shape0 (states (snd (example_engine example_model ''normal'' 4))))) 2 [3, 0] \<and>
      plot_trajectories c new_axes 2 [3, 0] = Inr a'"
    by (rule conjI [OF run conjI [OF get conjI [OF d p]]])
  note l = inst [THEN conjunct2, THEN mp, OF h, THEN conjunct2, THEN conjunct2, THEN conjunct2]
  have y: "map ydata (lines a') = [[4, 5], [1, 2], [3, 4], [0, 1]]"
    unfolding l
    by (simp add: example_engine_def example_states_def example_model_def add_promoters_def
        LinearModel_init_def remove_perturbed_def new_axes_def upt_2)
  have k: "map color (lines a') = [''m'', ''m'', ''grey'', ''grey'']"
    unfolding l by (simp add: new_axes_def)
  show ?thesis
    apply (rule exI [of _ cs])
    apply (rule exI [of _ c])
    apply (rule exI [of _ a'])
    apply (rule conjI [OF run conjI [OF get conjI [OF d conjI [OF p conjI [OF y k]]]]])
    done
qed




text \<open>
  Claim C9. When a mapping keyed by grid positions lacks the entry of a position,
  \<open>plot_heatmap\<close> does not fail on that account: the cell keeps the zero it was
  initialised with, and the figure is the very figure of the mapping that holds, at that
  position, a comparison whose error frequency is 0. The same holds for the promoter
  variant.
\<close>

theorem missing_entry_is_rendered_as_zero:
  "(distinct (map fst comparisons) \<and> fst ` set comparisons \<subseteq> grid \<and>
      has_condition condition comparisons \<and>
      (i, j) \<in> grid \<and> (i, j) \<notin> fst ` set comparisons \<longrightarrow>
    (\<exists>matrix fig.
        assemble_matrix comparisons condition = Inr matrix \<and>
        matrix ! nat i ! nat j = 0 \<and>
        plot_heatmap comparisons condition = Inr fig \<and>
        images (ax fig) =
          [\<lparr>data = transpose matrix, cmap = ''copper_r'', vmin = 0, vmax = 1\<rparr>] \<and>
        transpose matrix ! nat j ! nat i = 0 \<and>
        (\<forall>comparison c.
           dict_getitem comparison condition = Inr c \<and> threshold_error c = 0 \<longrightarrow>
           plot_heatmap (dict_setitem comparisons (i, j) comparison) condition = Inr fig))) \<and>
   (distinct (map fst promoters) \<and> fst ` set promoters \<subseteq> {0, 1, 2} \<and>
      has_condition condition promoters \<and>
      i \<in> {0, 1, 2} \<and> i \<notin> fst ` set promoters \<longrightarrow>
    (\<exists>matrix fig.
        assemble_column promoters condition = Inr matrix \<and>
        matrix ! nat i = [0] \<and>
        plot_heatmap_promoters promoters condition = Inr fig \<and>
        images (ax fig) = [\<lparr>data = matrix, cmap = ''copper_r'', vmin = 0, vmax = 1\<rparr>] \<and>
        (\<forall>comparison c.
           dict_getitem comparison condition = Inr c \<and> threshold_error c = 0 \<longrightarrow>
           plot_heatmap_promoters (dict_setitem promoters i comparison) condition = Inr fig)))"
proof (intro conjI impI)
  assume a: "distinct (map fst comparisons) \<and> fst ` set comparisons \<subseteq> grid \<and>
      has_condition condition comparisons \<and>
      (i, j) \<in> grid \<and> (i, j) \<notin> fst ` set comparisons"
  let ?m = "heat_matrix comparisons condition"
  from a have dist: "distinct (map fst comparisons)" and sub: "fst ` set comparisons \<subseteq> grid"
    and hc: "has_condition condition comparisons" and ij: "(i, j) \<in> grid"
    and fresh: "(i, j) \<notin> fst ` set comparisons"
    by simp_all
  from ij have ni: "nat i < 3" "nat j < 3" "int (nat i) = i" "int (nat j) = j"
    by (auto simp add: grid_def)
  have asm: "assemble_matrix comparisons condition = Inr ?m"
    using dist sub hc by (rule assemble_matrix_eq)
  have cell: "?m ! nat i ! nat j = 0"
    using ni fresh by (simp add: heat_matrix_def cell_value_absent)
  have fig: "plot_heatmap comparisons condition = Inr (render_heatmap ?m condition)"
    using asm by (simp add: plot_heatmap_def)
  have tr: "transpose ?m ! nat j ! nat i = 0"
    using ni cell by (simp add: transpose_3x3 [OF is_3x3_heat_matrix])
  have same: "plot_heatmap (dict_setitem comparisons (i, j) comparison) condition =
      Inr (render_heatmap ?m condition)"
    if get: "dict_getitem comparison condition = Inr c" and zero: "threshold_error c = 0"
    for comparison c
  proof -
    let ?cs = "comparisons @ [((i, j), comparison)]"
    have upd: "dict_setitem comparisons (i, j) comparison = ?cs"
      using fresh by (rule dict_setitem_fresh)
    have d': "distinct (map fst ?cs)" using dist fresh by simp
    have s': "fst ` set ?cs \<subseteq> grid" using sub ij by simp
    have h': "has_condition condition ?cs"
      using hc get by (simp add: has_condition_append dict_getitem_Inr)
    have "heat_matrix ?cs condition = ?m"
      by (simp add: heat_matrix_def cell_value_zero_entry [OF fresh get zero])
    with assemble_matrix_eq [OF d' s' h'] show ?thesis
      by (simp add: upd plot_heatmap_def)
  qed
  show "\<exists>matrix fig.
        assemble_matrix comparisons condition = Inr matrix \<and>
        matrix ! nat i ! nat j = 0 \<and>
        plot_heatmap comparisons condition = Inr fig \<and>
        images (ax fig) =
          [\<lparr>data = transpose matrix, cmap = ''copper_r'', vmin = 0, vmax = 1\<rparr>] \<and>
        transpose matrix ! nat j ! nat i = 0 \<and>
        (\<forall>comparison c.
           dict_getitem comparison condition = Inr c \<and> threshold_error c = 0 \<longrightarrow>
           plot_heatmap (dict_setitem comparisons (i, j) comparison) condition = Inr fig)"
    using asm cell fig images_render_heatmap [of ?m condition] tr same by blast
next
  assume a: "distinct (map fst promoters) \<and> fst ` set promoters \<subseteq> {0, 1, 2} \<and>
      has_condition condition promoters \<and>
      i \<in> {0, 1, 2} \<and> i \<notin> fst ` set promoters"
  let ?m = "heat_column promoters condition"
  from a have dist: "distinct (map fst promoters)" and sub: "fst ` set promoters \<subseteq> {0, 1, 2}"
    and hc: "has_condition condition promoters" and i: "i \<in> {0, 1, 2}"
    and fresh: "i \<notin> fst ` set promoters"
    by simp_all
  from i have ni: "nat i < 3" "int (nat i) = i" by auto
  have asm: "assemble_column promoters condition = Inr ?m"
    using dist sub hc by (rule assemble_column_eq)
  have cell: "?m ! nat i = [0]"
    using ni fresh by (simp add: heat_column_def cell_value_absent)
  have fig: "plot_heatmap_promoters promoters condition = Inr (render_column ?m condition)"
    using asm by (simp add: plot_heatmap_promoters_def)
  have same: "plot_heatmap_promoters (dict_setitem promoters i comparison) condition =
      Inr (render_column ?m condition)"
    if get: "dict_getitem comparison condition = Inr c" and zero: "threshold_error c = 0"
    for comparison c
  proof -
    let ?cs = "promoters @ [(i, comparison)]"
    have upd: "dict_setitem promoters i comparison = ?cs"
      using fresh by (rule dict_setitem_fresh)
    have d': "distinct (map fst ?cs)" using dist fresh by simp
    have s': "fst ` set ?cs \<subseteq> {0, 1, 2}" using sub i by simp
    have h': "has_condition condition ?cs"
      using hc get by (simp add: has_condition_append dict_getitem_Inr)
    have "heat_column ?cs condition = ?m"
      by (simp add: heat_column_def cell_value_zero_entry [OF fresh get zero])
    with assemble_column_eq [OF d' s' h'] show ?thesis
      by (simp add: upd plot_heatmap_promoters_def)
  qed
  show "\<exists>matrix fig.
        assemble_column promoters condition = Inr matrix \<and>
        matrix ! nat i = [0] \<and>
        plot_heatmap_promoters promoters condition = Inr fig \<and>
        images (ax fig) = [\<lparr>data = matrix, cmap = ''copper_r'', vmin = 0, vmax = 1\<rparr>] \<and>
        (\<forall>comparison c.
           dict_getitem comparison condition = Inr c \<and> threshold_error c = 0 \<longrightarrow>
           plot_heatmap_promoters (dict_setitem promoters i comparison) condition = Inr fig)"
    using asm cell fig images_render_column [of ?m condition] same by blast
qed

theorem missing_entry_is_rendered_as_zero_witness:
  "(distinct (map fst example_pairs) \<and> fst ` set example_pairs \<subseteq> grid \<and>
      has_condition ''normal'' example_pairs \<and>
      (0, 0) \<in> grid \<and> (0, 0) \<notin> fst ` set example_pairs) \<and>
   (\<exists>matrix fig.
      assemble_matrix example_pairs ''normal'' = Inr matrix \<and>
      matrix ! 0 ! 0 = 0 \<and>
      plot_heatmap example_pairs ''normal'' = Inr fig \<and>
      plot_heatmap (dict_setitem example_pairs (0, 0) (example_run 0)) ''normal'' = Inr fig) \<and>
   (distinct (map fst example_promoters) \<and> fst ` set example_promoters \<subseteq> {0, 1, 2} \<and>
      has_condition ''normal'' example_promoters \<and>
      (0 :: int) \<in> {0, 1, 2} \<and> 0 \<notin> fst ` set example_promoters) \<and>
   (\<exists>matrix fig.
      assemble_column example_promoters ''normal'' = Inr matrix \<and>
      matrix ! 0 = [0] \<and>
      plot_heatmap_promoters example_promoters ''normal'' = Inr fig \<and>
      plot_heatmap_promoters (dict_setitem example_promoters 0 (example_run 0)) ''normal'' =
        Inr fig)"
proof -
  note inst = missing_entry_is_rendered_as_zero
    [of example_pairs "''normal''" 0 0 example_promoters]
  have h1: "distinct (map fst example_pairs) \<and> fst ` set example_pairs \<subseteq> grid \<and>
      has_condition ''normal'' example_pairs \<and>
      (0, 0) \<in> grid \<and> (0, 0) \<notin> fst ` set example_pairs"
    using example_pairs_ok example_missing by (elim conjE) (intro conjI)
  have h2: "distinct (map fst example_promoters) \<and> fst ` set example_promoters \<subseteq> {0, 1, 2} \<and>
      has_condition ''normal'' example_promoters \<and>
      (0 :: int) \<in> {0, 1, 2} \<and> 0 \<notin> fst ` set example_promoters"
    using example_promoters_ok example_missing by (elim conjE) (intro conjI)
  from inst [THEN conjunct1, THEN mp, OF h1] obtain matrix fig where
    m: "assemble_matrix example_pairs ''normal'' = Inr matrix"
    and c: "matrix ! nat 0 ! nat 0 = 0"
    and f: "plot_heatmap example_pairs ''normal'' = Inr fig"
    and z: "\<forall>comparison c.
           dict_getitem comparison ''normal'' = Inr c \<and> threshold_error c = 0 \<longrightarrow>
           plot_heatmap (dict_setitem example_pairs (0, 0) comparison) ''normal'' = Inr fig"
    by (elim exE conjE)
  from z [THEN spec, THEN spec, THEN mp, OF example_zero_entry]
  have f0: "plot_heatmap (dict_setitem example_pairs (0, 0) (example_run 0)) ''normal'' = Inr fig" .
  from c have c0: "matrix ! 0 ! 0 = 0" by simp
  have A: "\<exists>matrix fig.
      assemble_matrix example_pairs ''normal'' = Inr matrix \<and>
      matrix ! 0 ! 0 = 0 \<and>
      plot_heatmap example_pairs ''normal'' = Inr fig \<and>
      plot_heatmap (dict_setitem example_pairs (0, 0) (example_run 0)) ''normal'' = Inr fig"
    using m c0 f f0 by (intro exI [of _ matrix] exI [of _ fig] conjI)
  from inst [THEN conjunct2, THEN mp, OF h2] obtain column fig' where
    m': "assemble_column example_promoters ''normal'' = Inr column"
    and c': "column ! nat 0 = [0]"
    and f': "plot_heatmap_promoters example_promoters ''normal'' = Inr fig'"
    and z': "\<forall>comparison c.
           dict_getitem comparison ''normal'' = Inr c \<and> threshold_error c = 0 \<longrightarrow>
           plot_heatmap_promoters (dict_setitem example_promoters 0 comparison) ''normal'' =
             Inr fig'"
    by (elim exE conjE)
  from z' [THEN spec, THEN spec, THEN mp, OF example_zero_entry]
  have f0': "plot_heatmap_promoters (dict_setitem example_promoters 0 (example_run 0)) ''normal'' =
      Inr fig'" .
  from c' have c0': "column ! 0 = [0]" by simp
  have B: "\<exists>matrix fig.
      assemble_column example_promoters ''normal'' = Inr matrix \<and>
      matrix ! 0 = [0] \<and>
      plot_heatmap_promoters example_promoters ''normal'' = Inr fig \<and>
      plot_heatmap_promoters (dict_setitem example_promoters 0 (example_run 0)) ''normal'' =
        Inr fig"
    using m' c0' f' f0' by (intro exI [of _ column] exI [of _ fig'] conjI)
  show ?thesis
    by (rule conjI [OF h1 conjI [OF A conjI [OF h2 B]]])
qed

text \<open>
  Claim C10. \<open>plot_heatmap\<close> and \<open>plot_trajectories\<close> leave the comparison data as it
  was: \<open>plot_heatmap\<close> changes no object that existed before the call, the loop over the
  three conditions reads the same mapping each time and each of its figures is the figure
  of that one mapping under its condition, and \<open>plot_trajectories\<close> writes the axes and
  nothing else.
\<close>

theorem plotting_leaves_the_comparisons_unchanged:
  "(heap_plot_heatmap h a condition = Inr (h1, f) \<longrightarrow>
      take (length h) h1 = h \<and> heap_get h1 a = heap_get h a \<and>
      (\<exists>cs fig. heap_get h a = Some (DictObj cs) \<and>
         plot_heatmap cs condition = Inr fig \<and> heap_get h1 f = Some (FigureObj fig))) \<and>
   (heatmap_cell h a = Inr (h3, figs) \<longrightarrow>
      take (length h) h3 = h \<and> heap_get h3 a = heap_get h a \<and>
      (\<exists>cs fig1 fig2 fig3.
         heap_get h a = Some (DictObj cs) \<and>
         plot_heatmap cs ''normal'' = Inr fig1 \<and>
         plot_heatmap cs ''diabetic'' = Inr fig2 \<and>
         plot_heatmap cs ''hyper_metabolic'' = Inr fig3 \<and>
         map (heap_get h3) figs = [Some (FigureObj fig1), Some (FigureObj fig2), Some (FigureObj fig3)])) \<and>
   (heap_plot_trajectories h c x N ind = Inr h' \<longrightarrow>
      length h' = length h \<and> (\<forall>p. p \<noteq> x \<longrightarrow> h' ! p = h ! p) \<and>
      heap_get h' c = heap_get h c \<and>
      (\<exists>cmp a0 a1. heap_get h c = Some (ComparisonObj cmp) \<and> heap_get h x = Some (AxesObj a0) \<and>
         plot_trajectories cmp a0 N ind = Inr a1 \<and> heap_get h' x = Some (AxesObj a1)))"
proof (intro conjI impI)
  assume r: "heap_plot_heatmap h a condition = Inr (h1, f)"
  from heap_plot_heatmap_Inr [OF r] obtain cs m where
    g: "heap_get h a = Some (DictObj cs)" and am: "assemble_matrix cs condition = Inr m"
    and h1: "h1 = h @ [ArrayObj m, FigureObj (render_heatmap m condition)]"
    and f: "f = Suc (length h)"
    by blast
  show t: "take (length h) h1 = h" by (simp add: h1)
  show "heap_get h1 a = heap_get h a"
    using t heap_get_Some_less [OF g] by (rule heap_get_take)
  have "plot_heatmap cs condition = Inr (render_heatmap m condition)"
    using am by (simp add: plot_heatmap_def)
  moreover have "heap_get h1 f = Some (FigureObj (render_heatmap m condition))"
    by (simp add: h1 f heap_get_def nth_append)
  ultimately show "\<exists>cs fig. heap_get h a = Some (DictObj cs) \<and>
         plot_heatmap cs condition = Inr fig \<and> heap_get h1 f = Some (FigureObj fig)"
    using g by blast
next
  assume r: "heatmap_cell h a = Inr (h3, figs)"
  from heatmap_cell_Inr [OF r] obtain cs m1 m2 m3 where
    g: "heap_get h a = Some (DictObj cs)"
    and a1: "assemble_matrix cs ''normal'' = Inr m1"
    and a2: "assemble_matrix cs ''diabetic'' = Inr m2"
    and a3: "assemble_matrix cs ''hyper_metabolic'' = Inr m3"
    and h3: "h3 = h @ [ArrayObj m1, FigureObj (render_heatmap m1 ''normal''),
                     ArrayObj m2, FigureObj (render_heatmap m2 ''diabetic''),
                     ArrayObj m3, FigureObj (render_heatmap m3 ''hyper_metabolic'')]"
    and figs: "figs = [length h + 1, length h + 3, length h + 5]"
    by blast
  show t: "take (length h) h3 = h" by (simp add: h3)
  show "heap_get h3 a = heap_get h a"
    using t heap_get_Some_less [OF g] by (rule heap_get_take)
  have p1: "plot_heatmap cs ''normal'' = Inr (render_heatmap m1 ''normal'')"
    using a1 by (simp add: plot_heatmap_def)
  have p2: "plot_heatmap cs ''diabetic'' = Inr (render_heatmap m2 ''diabetic'')"
    using a2 by (simp add: plot_heatmap_def)
  have p3: "plot_heatmap cs ''hyper_metabolic'' = Inr (render_heatmap m3 ''hyper_metabolic'')"
    using a3 by (simp add: plot_heatmap_def)
  have "map (heap_get h3) figs =
      [Some (FigureObj (render_heatmap m1 ''normal'')),
       Some (FigureObj (render_heatmap m2 ''diabetic'')),
       Some (FigureObj (render_heatmap m3 ''hyper_metabolic''))]"
    by (simp add: h3 figs heap_get_def nth_append)
  then show "\<exists>cs fig1 fig2 fig3.
         heap_get h a = Some (DictObj cs) \<and>
         plot_heatmap cs ''normal'' = Inr fig1 \<and>
         plot_heatmap cs ''diabetic'' = Inr fig2 \<and>
         plot_heatmap cs ''hyper_metabolic'' = Inr fig3 \<and>
         map (heap_get h3) figs = [Some (FigureObj fig1), Some (FigureObj fig2), Some (FigureObj fig3)]"
    using g p1 p2 p3
    by (intro exI [of _ cs] exI [of _ "render_heatmap m1 ''normal''"]
        exI [of _ "render_heatmap m2 ''diabetic''"]
        exI [of _ "render_heatmap m3 ''hyper_metabolic''"] conjI)
next
  assume r: "heap_plot_trajectories h c x N ind = Inr h'"
  from heap_plot_trajectories_Inr [OF r] obtain cmp a0 a1 where
    gc: "heap_get h c = Some (ComparisonObj cmp)" and gx: "heap_get h x = Some (AxesObj a0)"
    and p: "plot_trajectories cmp a0 N ind = Inr a1" and h': "h' = h[x := AxesObj a1]"
    by blast
  show "length h' = length h" by (simp add: h')
  show "\<forall>p. p \<noteq> x \<longrightarrow> h' ! p = h ! p" by (simp add: h')
  have ne: "c \<noteq> x" using gc gx by auto
  show "heap_get h' c = heap_get h c"
    using ne by (simp add: h' heap_get_def)
  have "heap_get h' x = Some (AxesObj a1)"
    using heap_get_Some_less [OF gx] by (simp add: h' heap_get_def)
  with gc gx p show "\<exists>cmp a0 a1. heap_get h c = Some (ComparisonObj cmp) \<and>
         heap_get h x = Some (AxesObj a0) \<and>
         plot_trajectories cmp a0 N ind = Inr a1 \<and> heap_get h' x = Some (AxesObj a1)"
    by blast
qed

theorem plotting_leaves_the_comparisons_unchanged_witness:
  "\<exists>h1 f h3 figs h'.
     heap_plot_heatmap example_heap 0 ''normal'' = Inr (h1, f) \<and>
     heap_get h1 0 = Some (DictObj example_pairs) \<and>
     heatmap_cell example_heap 0 = Inr (h3, figs) \<and>
     take (length example_heap) h3 = example_heap \<and>
     heap_get h3 0 = Some (DictObj example_pairs) \<and>
     heap_plot_trajectories example_heap 1 2 2 [1, 0] = Inr h' \<and>
     heap_get h' 1 = Some (ComparisonObj (example_comparison 2 3 0))"
proof -
  note g = example_heap_dict [THEN conjunct1]
  note d = example_heap_dict [THEN conjunct2, THEN conjunct1]
  note s = example_heap_dict [THEN conjunct2, THEN conjunct2, THEN conjunct1]
  note c = example_heap_dict [THEN conjunct2, THEN conjunct2, THEN conjunct2]
  from c have c1: "has_condition ''normal'' example_pairs" by (simp add: conditions_def)
  define h1 where "h1 = example_heap @ [ArrayObj (heat_matrix example_pairs ''normal''),
      FigureObj (render_heatmap (heat_matrix example_pairs ''normal'') ''normal'')]"
  have r1: "heap_plot_heatmap example_heap 0 ''normal'' = Inr (h1, Suc (length example_heap))"
    unfolding h1_def
    by (simp only: heap_plot_heatmap_refines [OF g] assemble_matrix_eq [OF d s c1] sum.case)
  from heatmap_cell_total [OF g d s c] obtain h3 figs where
    r3: "heatmap_cell example_heap 0 = Inr (h3, figs)"
    by (elim exE)
  from example_heap_trajectories obtain h' where
    rt: "heap_plot_trajectories example_heap 1 2 2 [1, 0] = Inr h'"
    by (elim exE)
  have gc: "heap_get example_heap 1 = Some (ComparisonObj (example_comparison 2 3 0))"
    by (simp add: example_heap_def heap_get_def)
  note inst = plotting_leaves_the_comparisons_unchanged
    [where h = example_heap and a = 0 and condition = "''normal''" and ?h1.0 = h1
      and f = "Suc (length example_heap)" and ?h3.0 = h3 and figs = figs
      and c = 1 and x = 2 and N = 2 and ind = "[1, 0]" and h' = h']
  note i1 = inst [THEN conjunct1, THEN mp, OF r1]
  note i3 = inst [THEN conjunct2, THEN conjunct1, THEN mp, OF r3]
  note it = inst [THEN conjunct2, THEN conjunct2, THEN mp, OF rt]
  have k1: "heap_get h1 0 = Some (DictObj example_pairs)"
    using i1 [THEN conjunct2, THEN conjunct1] g by (rule trans)
  have k3a: "take (length example_heap) h3 = example_heap"
    by (rule i3 [THEN conjunct1])
  have k3b: "heap_get h3 0 = Some (DictObj example_pairs)"
    using i3 [THEN conjunct2, THEN conjunct1] g by (rule trans)
  have kt: "heap_get h' 1 = Some (ComparisonObj (example_comparison 2 3 0))"
    using it [THEN conjunct2, THEN conjunct2, THEN conjunct1] gc by (rule trans)
  show ?thesis
    apply (rule exI [of _ h1])
    apply (rule exI [of _ "Suc (length example_heap)"])
    apply (rule exI [of _ h3])
    apply (rule exI [of _ figs])
    apply (rule exI [of _ h'])
    apply (rule conjI [OF r1 conjI [OF k1 conjI [OF r3 conjI [OF k3a conjI [OF k3b conjI [OF rt kt]]]]]])
    done
qed

end
